theory Spec2Isabelle
  imports Main
begin

section \<open>JSON values and the Python operations the scripts apply to them\<close>

text \<open>
  The four scripts work on what \<^verbatim>\<open>json.loads\<close> and \<^verbatim>\<open>response.json()\<close> return:
  \<^verbatim>\<open>None\<close>, booleans, integers, strings, lists and dicts. A dict keeps its entries in
  insertion order, so it is an association list (its keys are distinct in Python; no
  result below depends on that). Strings are lists of characters read as the code points
  U+0000 to U+00FF. Numbers are integers: a JSON number with a fraction or an exponent
  (a Python float) is outside this model.
\<close>

datatype json =
    JNull
  | JBool bool
  | JInt int
  | JStr string
  | JArr "json list"
  | JObj "(string \<times> json) list"

text \<open>
  The exceptions that can leave the modelled code. A function that can raise returns
  \<open>py_exception + 'a\<close>, with \<open>Inl\<close> for the exception.
\<close>

datatype py_exception = AttributeError | RequestException | JSONDecodeError

text \<open>Python's truth value of an object: \<^verbatim>\<open>if x\<close>, \<^verbatim>\<open>not x\<close>, \<^verbatim>\<open>all([...])\<close>.\<close>

fun truthy :: "json \<Rightarrow> bool" where
  "truthy JNull = False"
| "truthy (JBool b) = b"
| "truthy (JInt i) = (i \<noteq> 0)"
| "truthy (JStr s) = (s \<noteq> [])"
| "truthy (JArr xs) = (xs \<noteq> [])"
| "truthy (JObj kvs) = (kvs \<noteq> [])"

definition py_all :: "json list \<Rightarrow> bool" where
  "py_all vs = list_all truthy vs"

text \<open>
  \<^verbatim>\<open>obj.get(key, default)\<close>: only a dict has the method; on any other value the attribute
  lookup raises \<^verbatim>\<open>AttributeError\<close>. \<^verbatim>\<open>obj.get(key)\<close> is the call with default \<^verbatim>\<open>None\<close>.
\<close>

fun py_get :: "json \<Rightarrow> string \<Rightarrow> json \<Rightarrow> py_exception + json" where
  "py_get (JObj kvs) k d = Inr (case map_of kvs k of None \<Rightarrow> d | Some v \<Rightarrow> v)"
| "py_get _ k d = Inl AttributeError"

text \<open>
  \<^verbatim>\<open>obj.items()\<close>, likewise a method of dicts only.
\<close>

fun py_items :: "json \<Rightarrow> py_exception + (string \<times> json) list" where
  "py_items (JObj kvs) = Inr kvs"
| "py_items _ = Inl AttributeError"

text \<open>Sequencing: the first exception raised leaves the function.\<close>

definition and_then :: "'e + 'a \<Rightarrow> ('a \<Rightarrow> 'e + 'b) \<Rightarrow> 'e + 'b" where
  "and_then m f = (case m of Inl e \<Rightarrow> Inl e | Inr v \<Rightarrow> f v)"

subsection \<open>Characters\<close>

text \<open>The double quote, the single quote, the backslash and the newline.\<close>

abbreviation dq :: char where "dq \<equiv> CHR 0x22"
abbreviation sq :: char where "sq \<equiv> CHR 0x27"
abbreviation bs :: char where "bs \<equiv> CHR 0x5C"
abbreviation nl :: char where "nl \<equiv> CHR 0x0A"

text \<open>
  \<^verbatim>\<open>str.lower()\<close> on one code point below U+0100: the ASCII capitals U+0041 to U+005A
  and the Latin-1 capitals U+00C0 to U+00DE (U+00D7, the multiplication sign, is no
  letter) move up by 32 to their small letters; every other code point stays.
\<close>

definition is_upper :: "char \<Rightarrow> bool" where
  "is_upper c =
     (let n = (of_char c :: nat)
      in (65 \<le> n \<and> n \<le> 90) \<or> (192 \<le> n \<and> n \<le> 222 \<and> n \<noteq> 215))"

definition lower_char :: "char \<Rightarrow> char" where
  "lower_char c = (if is_upper c then char_of (of_char c + 32 :: nat) else c)"

definition lower :: "string \<Rightarrow> string" where
  "lower s = map lower_char s"

definition hex_digit :: "nat \<Rightarrow> char" where
  "hex_digit n = ''0123456789abcdef'' ! n"

definition hex2 :: "char \<Rightarrow> string" where
  "hex2 c = [hex_digit (of_char c div 16), hex_digit (of_char c mod 16)]"

subsection \<open>Integers and strings as text\<close>

fun digits10 :: "nat \<Rightarrow> string" where
  "digits10 n =
     (if n < 10 then [''0123456789'' ! n]
      else digits10 (n div 10) @ [''0123456789'' ! (n mod 10)])"

declare digits10.simps [simp del]

definition str_int :: "int \<Rightarrow> string" where
  "str_int i = (if i < 0 then CHR ''-'' # digits10 (nat (- i)) else digits10 (nat i))"

fun join :: "string \<Rightarrow> string list \<Rightarrow> string" where
  "join sep [] = []"
| "join sep [x] = x"
| "join sep (x # y # ys) = x @ sep @ join sep (y # ys)"

text \<open>
  \<^verbatim>\<open>str.isprintable()\<close> below U+0100: the control characters U+0000 to U+001F and
  U+007F to U+009F, the no-break space U+00A0 and the soft hyphen U+00AD are not
  printable.
\<close>

definition printable :: "char \<Rightarrow> bool" where
  "printable c =
     (let n = (of_char c :: nat) in (32 \<le> n \<and> n < 127) \<or> (161 \<le> n \<and> n \<noteq> 173))"

text \<open>
  \<^verbatim>\<open>repr\<close> of a string: single quotes, unless the string holds a single quote and no
  double quote; the quote and the backslash are escaped with a backslash, tab, newline
  and carriage return by their letters, any other unprintable character as \<^verbatim>\<open>\xhh\<close>.
\<close>

definition repr_quote :: "string \<Rightarrow> char" where
  "repr_quote s = (if sq \<in> set s \<and> dq \<notin> set s then dq else sq)"

definition repr_char :: "char \<Rightarrow> char \<Rightarrow> string" where
  "repr_char q c =
     (if c = q \<or> c = bs then [bs, c]
      else if c = CHR 0x09 then [bs, CHR ''t'']
      else if c = CHR 0x0A then [bs, CHR ''n'']
      else if c = CHR 0x0D then [bs, CHR ''r'']
      else if \<not> printable c then [bs, CHR ''x''] @ hex2 c
      else [c])"

definition repr_str :: "string \<Rightarrow> string" where
  "repr_str s = (let q = repr_quote s in [q] @ concat (map (repr_char q) s) @ [q])"

text \<open>\<^verbatim>\<open>repr\<close> of a value; a list or a dict shows its elements by their \<^verbatim>\<open>repr\<close>.\<close>

fun py_repr :: "json \<Rightarrow> string"
  and py_repr_list :: "json list \<Rightarrow> string list"
  and py_repr_items :: "(string \<times> json) list \<Rightarrow> string list" where
  "py_repr JNull = ''None''"
| "py_repr (JBool b) = (if b then ''True'' else ''False'')"
| "py_repr (JInt i) = str_int i"
| "py_repr (JStr s) = repr_str s"
| "py_repr (JArr xs) = ''['' @ join '', '' (py_repr_list xs) @ '']''"
| "py_repr (JObj kvs) = ''{'' @ join '', '' (py_repr_items kvs) @ ''}''"
| "py_repr_list [] = []"
| "py_repr_list (x # xs) = py_repr x # py_repr_list xs"
| "py_repr_items [] = []"
| "py_repr_items ((k, v) # kvs) = (repr_str k @ '': '' @ py_repr v) # py_repr_items kvs"

text \<open>
  \<^verbatim>\<open>str(x)\<close>, which is what an f-string field \<^verbatim>\<open>{x}\<close> inserts: a string is inserted as
  it is, any other value by its \<^verbatim>\<open>repr\<close>.
\<close>

fun py_str :: "json \<Rightarrow> string" where
  "py_str (JStr s) = s"
| "py_str v = py_repr v"

text \<open>
  \<^verbatim>\<open>json.dumps(x)\<close> with its defaults (\<^verbatim>\<open>ensure_ascii=True\<close>, separators \<^verbatim>\<open>", "\<close> and
  \<^verbatim>\<open>": "\<close>): in a string, the double quote and the backslash get a backslash, the five
  control characters with a short escape get it, and every other character outside
  the range from space to tilde becomes \<^verbatim>\<open>\u00hh\<close>.
\<close>

definition json_escape_char :: "char \<Rightarrow> string" where
  "json_escape_char c =
     (if c = dq then [bs, dq]
      else if c = bs then [bs, bs]
      else if c = CHR 0x0A then [bs, CHR ''n'']
      else if c = CHR 0x0D then [bs, CHR ''r'']
      else if c = CHR 0x09 then [bs, CHR ''t'']
      else if c = CHR 0x0C then [bs, CHR ''f'']
      else if c = CHR 0x08 then [bs, CHR ''b'']
      else if 32 \<le> (of_char c :: nat) \<and> (of_char c :: nat) \<le> 126 then [c]
      else [bs, CHR ''u'', CHR ''0'', CHR ''0''] @ hex2 c)"

definition json_dumps_str :: "string \<Rightarrow> string" where
  "json_dumps_str s = [dq] @ concat (map json_escape_char s) @ [dq]"

fun json_dumps :: "json \<Rightarrow> string"
  and json_dumps_list :: "json list \<Rightarrow> string list"
  and json_dumps_items :: "(string \<times> json) list \<Rightarrow> string list" where
  "json_dumps JNull = ''null''"
| "json_dumps (JBool b) = (if b then ''true'' else ''false'')"
| "json_dumps (JInt i) = str_int i"
| "json_dumps (JStr s) = json_dumps_str s"
| "json_dumps (JArr xs) = ''['' @ join '', '' (json_dumps_list xs) @ '']''"
| "json_dumps (JObj kvs) = ''{'' @ join '', '' (json_dumps_items kvs) @ ''}''"
| "json_dumps_list [] = []"
| "json_dumps_list (x # xs) = json_dumps x # json_dumps_list xs"
| "json_dumps_items [] = []"
| "json_dumps_items ((k, v) # kvs) =
     (json_dumps_str k @ '': '' @ json_dumps v) # json_dumps_items kvs"

section \<open>The extractor: \<^verbatim>\<open>extract_azure_devops_api_data.py\<close>\<close>

subsection \<open>What one page adds to \<^verbatim>\<open>all_data\<close> (lines 55 to 75)\<close>

fun is_list :: "json \<Rightarrow> bool" where
  "is_list (JArr xs) = True"
| "is_list _ = False"

fun is_dict :: "json \<Rightarrow> bool" where
  "is_dict (JObj kvs) = True"
| "is_dict _ = False"

text \<open>
  Lines 63 to 68: the loop over \<^verbatim>\<open>page_data.items()\<close> stops at the first entry whose
  value is a list; \<open>None\<close> is \<^verbatim>\<open>found_list = False\<close> at its end.
\<close>

fun first_list :: "(string \<times> json) list \<Rightarrow> json list option" where
  "first_list [] = None"
| "first_list ((key, val) # rest) =
     (case val of JArr xs \<Rightarrow> Some xs | _ \<Rightarrow> first_list rest)"

text \<open>
  The branches of lines 55 to 75 in their order; the result is what \<^verbatim>\<open>extend\<close> or
  \<^verbatim>\<open>append\<close> adds to \<^verbatim>\<open>all_data\<close>.
\<close>

fun normalize_page :: "json \<Rightarrow> json list" where
  "normalize_page (JObj kvs) =
     (case map_of kvs ''value'' of
        Some (JArr xs) \<Rightarrow> xs
      | _ \<Rightarrow> (case first_list kvs of Some xs \<Rightarrow> xs | None \<Rightarrow> [JObj kvs]))"
| "normalize_page (JArr xs) = xs"
| "normalize_page page_data = [page_data]"

subsection \<open>The pagination loop (lines 36 to 94)\<close>

text \<open>
  The headers of a response; \<^verbatim>\<open>response.headers.get(name)\<close> compares names without
  regard to case.
\<close>

type_synonym headers = "(string \<times> string) list"

definition headers_get :: "headers \<Rightarrow> string \<Rightarrow> string option" where
  "headers_get hs name = map_of (map (\<lambda>(k, v). (lower k, v)) hs) (lower name)"

text \<open>
  What a request comes back with: \<^verbatim>\<open>requests.get\<close> or \<^verbatim>\<open>raise_for_status\<close> raises, the
  body is not JSON, or there is a page: a decoded body and the headers. The server is a
  function from the number of the request (from 0) and its URL to the outcome.
\<close>

datatype response = RequestFailed | NotJson | Page json headers

type_synonym server = "nat \<Rightarrow> string \<Rightarrow> response"

text \<open>Line 45: the URL of a request that carries a continuation token.\<close>

definition url_with_token :: "string \<Rightarrow> string \<Rightarrow> string" where
  "url_with_token current_url continuation_token =
     current_url @ (if CHR ''?'' \<in> set current_url then ''&'' else ''?'') @
     ''continuationToken='' @ continuation_token"

text \<open>
  Lines 79 to 81: the primary header, and the other one when the primary is missing or
  empty. \<^verbatim>\<open>not continuation_token\<close> holds for \<^verbatim>\<open>None\<close> and for the empty string.
\<close>

definition no_token :: "string option \<Rightarrow> bool" where
  "no_token t = (t = None \<or> t = Some [])"

definition next_token :: "headers \<Rightarrow> string option" where
  "next_token hs =
     (let continuation_token = headers_get hs ''x-ms-continuationtoken''
      in if no_token continuation_token then headers_get hs ''ContinuationToken''
         else continuation_token)"

text \<open>
  The \<^verbatim>\<open>while True\<close> loop. It has no bound, so the model returns an option: \<open>None\<close> is a
  run that never leaves the loop. A run that ends gives the exception that left the
  function, or \<^verbatim>\<open>all_data\<close> together with the URLs of the requests made, in order.
  All three \<^verbatim>\<open>except\<close> clauses print and raise again, so a failure ends the run.
\<close>

partial_function (option) extract_loop ::
  "server \<Rightarrow> string \<Rightarrow> nat \<Rightarrow> string option \<Rightarrow> json list \<Rightarrow> string list
     \<Rightarrow> (py_exception + json list \<times> string list) option" where
  "extract_loop srv current_url n continuation_token all_data requests =
     (let request_url =
            (case continuation_token of
               None \<Rightarrow> current_url
             | Some t \<Rightarrow> if t \<noteq> [] then url_with_token current_url t else current_url)
      in case srv n request_url of
           RequestFailed \<Rightarrow> Some (Inl RequestException)
         | NotJson \<Rightarrow> Some (Inl JSONDecodeError)
         | Page page_data hs \<Rightarrow>
             if no_token (next_token hs)
             then Some (Inr (all_data @ normalize_page page_data, requests @ [request_url]))
             else extract_loop srv current_url (Suc n) (next_token hs)
                    (all_data @ normalize_page page_data) (requests @ [request_url]))"

text \<open>Lines 36 to 38: the state the loop starts from.\<close>

definition extract_all_data ::
  "server \<Rightarrow> string \<Rightarrow> (py_exception + json list \<times> string list) option" where
  "extract_all_data srv url = extract_loop srv url 0 None [] []"

section \<open>The generators\<close>

subsection \<open>The resource name (project generator lines 54 to 56, and its four copies)\<close>

text \<open>The character class \<^verbatim>\<open>[a-z0-9]\<close>: U+0061 to U+007A and U+0030 to U+0039.\<close>

definition az09 :: "char \<Rightarrow> bool" where
  "az09 c =
     (let n = (of_char c :: nat) in (97 \<le> n \<and> n \<le> 122) \<or> (48 \<le> n \<and> n \<le> 57))"

text \<open>
  \<^verbatim>\<open>re.sub(r'[^a-z0-9]+', '_', s)\<close>: scanning from the left, a character of the class
  is copied; at any other character the pattern matches, greedily, up to the next
  character of the class, and the match is replaced by one underscore.
\<close>

function re_sub_underscore :: "string \<Rightarrow> string" where
  "re_sub_underscore [] = []"
| "re_sub_underscore (c # cs) =
     (if az09 c then c # re_sub_underscore cs
      else CHR ''_'' # re_sub_underscore (dropWhile (\<lambda>d. \<not> az09 d) cs))"
  by pat_completeness auto
termination
  by (relation "measure length") (auto simp: le_imp_less_Suc length_dropWhile_le)

text \<open>\<^verbatim>\<open>s.strip('_')\<close>.\<close>

definition strip_underscores :: "string \<Rightarrow> string" where
  "strip_underscores s =
     rev (dropWhile (\<lambda>c. c = CHR ''_'') (rev (dropWhile (\<lambda>c. c = CHR ''_'') s)))"

text \<open>
  The three lines that every generator applies to a name, with the literal of its
  third line as the parameter \<open>fallback\<close>.
\<close>

definition sanitize :: "string \<Rightarrow> string \<Rightarrow> string" where
  "sanitize name fallback =
     (let resource_name_snake_case = strip_underscores (re_sub_underscore (lower name))
      in if resource_name_snake_case = [] then fallback else resource_name_snake_case)"

text \<open>
  The same lines on a value taken from the entity: \<^verbatim>\<open>name.lower()\<close> exists for a string
  only.
\<close>

fun py_sanitize :: "json \<Rightarrow> string \<Rightarrow> py_exception + string" where
  "py_sanitize (JStr name) fallback = Inr (sanitize name fallback)"
| "py_sanitize _ fallback = Inl AttributeError"

subsection \<open>Reading the input (lines 21 to 35 of each generator)\<close>

text \<open>
  The argument of a generator is a string; the model starts from what \<^verbatim>\<open>json.loads\<close>
  makes of it: the decoded value, a \<^verbatim>\<open>JSONDecodeError\<close>, or another exception. Both
  \<^verbatim>\<open>except\<close> clauses return \<^verbatim>\<open>(None, None)\<close>, as does a value that is neither a
  non-empty list nor a dict. \<open>None\<close> below is that return; \<open>Some\<close> is the entity.
\<close>

datatype loads_result = LoadsJSONDecodeError | LoadsException | Loaded json

fun select_dados :: "loads_result \<Rightarrow> json option" where
  "select_dados (Loaded (JArr (x # xs))) = Some x"
| "select_dados (Loaded (JObj kvs)) = Some (JObj kvs)"
| "select_dados _ = None"

text \<open>
  What a generator returns: the pair of the resource block and the import block, each
  a string or \<^verbatim>\<open>None\<close>.
\<close>

type_synonym blocks = "string option \<times> string option"

subsection \<open>\<^verbatim>\<open>terraform_azure_devops_project.py\<close>\<close>

definition projeto_resource ::
  "string \<Rightarrow> string \<Rightarrow> string \<Rightarrow> string \<Rightarrow> string \<Rightarrow> string \<Rightarrow> string" where
  \<open>projeto_resource resource_name_snake_case project_name formatted_description
       project_visibility version_control work_item_template =
     [nl] @ ''resource "azuredevops_project" "'' @ resource_name_snake_case @ ''" {'' @ [nl] @
     ''  name               = "'' @ project_name @ ''"'' @ [nl] @
     ''  description        = '' @ formatted_description @ [nl] @
     ''  visibility         = "'' @ project_visibility @ ''"'' @ [nl] @
     ''  version_control    = "'' @ version_control @ ''"'' @ [nl] @
     ''  work_item_template = "'' @ work_item_template @ ''"'' @ [nl] @
     ''}'' @ [nl]\<close>

definition projeto_import :: "string \<Rightarrow> string \<Rightarrow> string" where
  \<open>projeto_import project_id resource_name_snake_case =
     [nl] @ ''import {'' @ [nl] @
     ''  id = "'' @ project_id @ ''"'' @ [nl] @
     ''  to = azuredevops_project.'' @ resource_name_snake_case @ [nl] @
     ''}'' @ [nl]\<close>

text \<open>Lines 37 to 77, on the entity.\<close>

definition projeto_blocks :: "json \<Rightarrow> py_exception + blocks" where
  "projeto_blocks dados_projeto =
     and_then (py_get dados_projeto ''id'' JNull) (\<lambda>project_id.
     and_then (py_get dados_projeto ''name'' JNull) (\<lambda>project_name.
     and_then (py_get dados_projeto ''description'' (JStr [])) (\<lambda>project_description.
     and_then (py_get dados_projeto ''visibility'' (JStr ''private'')) (\<lambda>project_visibility.
     and_then (py_get dados_projeto ''capabilities'' (JObj [])) (\<lambda>capabilities.
     and_then (py_get capabilities ''processTemplate'' (JObj [])) (\<lambda>process_template_data.
     and_then (py_get process_template_data ''templateName'' (JStr ''Agile''))
       (\<lambda>work_item_template.
     and_then (py_get capabilities ''versioncontrol'' (JObj [])) (\<lambda>version_control_data.
     and_then (py_get version_control_data ''sourceControlType'' (JStr ''Git''))
       (\<lambda>version_control.
     if \<not> py_all [project_id, project_name] then Inr (None, None)
     else
       and_then (py_sanitize project_name ''unnamed_project'') (\<lambda>resource_name_snake_case.
       let formatted_description = json_dumps project_description;
           terraform_resource =
             projeto_resource resource_name_snake_case (py_str project_name)
               formatted_description (py_str project_visibility) (py_str version_control)
               (py_str work_item_template);
           terraform_import_block =
             (if truthy project_id
              then projeto_import (py_str project_id) resource_name_snake_case
              else [])
       in Inr (Some terraform_resource, Some terraform_import_block)))))))))))"

definition gerar_terraform_projeto_ado :: "loads_result \<Rightarrow> py_exception + blocks" where
  "gerar_terraform_projeto_ado json_projeto =
     (case select_dados json_projeto of
        None \<Rightarrow> Inr (None, None)
      | Some dados_projeto \<Rightarrow> projeto_blocks dados_projeto)"

subsection \<open>\<^verbatim>\<open>terraform_azure_devops_repos.py\<close>\<close>

text \<open>The part of the resource template after the \<^verbatim>\<open>name\<close> line; it has no field.\<close>

definition repositorio_fixed :: string where
  \<open>repositorio_fixed =
     [nl] @
     ''  # Incluindo o bloco initialization com init_type "Clean"'' @ [nl] @
     ''  initialization {'' @ [nl] @
     ''    init_type = "Clean"'' @ [nl] @
     ''  }'' @ [nl] @
     [nl] @
     ''  # Incluindo o bloco lifecycle para gerenciar importa'' @ [CHR 0xE7, CHR 0xE3] @
       ''o e prote'' @ [CHR 0xE7, CHR 0xE3] @ ''o contra destrui'' @ [CHR 0xE7, CHR 0xE3] @
       ''o'' @ [nl] @
     ''  lifecycle {'' @ [nl] @
     ''    ignore_changes = ['' @ [nl] @
     ''      # Ignora mudan'' @ [CHR 0xE7] @ ''as em initialization para suportar importa'' @
       [CHR 0xE7, CHR 0xE3] @ ''o de reposit'' @ [CHR 0xF3] @ ''rios existentes'' @ [nl] @
     ''      # Dado que um repo agora existe, seja importado para o estado do terraform ou criado pelo terraform,'' @ [nl] @
     ''      # n'' @ [CHR 0xE3] @ ''o nos importamos com a configura'' @ [CHR 0xE7, CHR 0xE3] @
       ''o de initialization contra o recurso existente'' @ [nl] @
     ''      initialization,'' @ [nl] @
     ''    ]'' @ [nl] @
     ''    prevent_destroy = true'' @ [nl] @
     ''  }'' @ [nl] @
     ''}'' @ [nl]\<close>

definition repositorio_resource :: "string \<Rightarrow> string \<Rightarrow> string \<Rightarrow> string" where
  \<open>repositorio_resource repo_resource_name_snake_case project_resource_name_snake_case
       repo_name =
     [nl] @ ''resource "azuredevops_git_repository" "'' @ repo_resource_name_snake_case @
       ''" {'' @ [nl] @
     ''  project_id = azuredevops_project.'' @ project_resource_name_snake_case @ ''.id'' @
       [nl] @
     ''  name       = "'' @ repo_name @ ''"'' @ [nl] @
     repositorio_fixed\<close>

definition repositorio_import :: "string \<Rightarrow> string \<Rightarrow> string \<Rightarrow> string" where
  \<open>repositorio_import project_id repo_id repo_resource_name_snake_case =
     [nl] @ ''import {'' @ [nl] @
     ''  id = "'' @ project_id @ ''/'' @ repo_id @ ''"'' @ [nl] @
     ''  to = azuredevops_git_repository.'' @ repo_resource_name_snake_case @ [nl] @
     ''}'' @ [nl]\<close>

text \<open>Lines 38 to 93, on the entity.\<close>

definition repositorio_blocks :: "json \<Rightarrow> py_exception + blocks" where
  "repositorio_blocks dados_repositorio =
     and_then (py_get dados_repositorio ''id'' JNull) (\<lambda>repo_id.
     and_then (py_get dados_repositorio ''name'' JNull) (\<lambda>repo_name.
     and_then (py_get dados_repositorio ''project'' (JObj [])) (\<lambda>project_data.
     and_then (py_get project_data ''id'' JNull) (\<lambda>project_id.
     and_then (py_get project_data ''name'' JNull) (\<lambda>project_name.
     if \<not> py_all [repo_id, repo_name, project_id, project_name] then Inr (None, None)
     else
       and_then (py_sanitize repo_name ''unnamed_repository'')
         (\<lambda>repo_resource_name_snake_case.
       and_then (py_sanitize project_name ''unnamed_project_ref'')
         (\<lambda>project_resource_name_snake_case.
       let terraform_resource =
             repositorio_resource repo_resource_name_snake_case
               project_resource_name_snake_case (py_str repo_name);
           terraform_import_block =
             (if truthy repo_id \<and> truthy project_id
              then repositorio_import (py_str project_id) (py_str repo_id)
                     repo_resource_name_snake_case
              else [])
       in Inr (Some terraform_resource, Some terraform_import_block))))))))"

definition gerar_terraform_repositorio_ado :: "loads_result \<Rightarrow> py_exception + blocks" where
  "gerar_terraform_repositorio_ado json_repositorio =
     (case select_dados json_repositorio of
        None \<Rightarrow> Inr (None, None)
      | Some dados_repositorio \<Rightarrow> repositorio_blocks dados_repositorio)"

subsection \<open>\<^verbatim>\<open>terraform_azure_devops_variablegroups.py\<close>\<close>

text \<open>Line 60: what one entry of \<^verbatim>\<open>variables\<close> appends to \<^verbatim>\<open>variables_block\<close>.\<close>

definition variable_entry :: "string \<Rightarrow> string \<Rightarrow> string \<Rightarrow> string" where
  \<open>variable_entry var_name val is_secret =
     ''    '' @ var_name @ '' = {'' @ [nl] @
     ''      value     = "'' @ val @ ''"'' @ [nl] @
     ''      is_secret = '' @ is_secret @ [nl] @
     ''    }'' @ [nl]\<close>

text \<open>Lines 56 to 60: the loop over \<^verbatim>\<open>variables.items()\<close>.\<close>

fun variables_loop :: "(string \<times> json) list \<Rightarrow> string \<Rightarrow> py_exception + string" where
  "variables_loop [] variables_block = Inr variables_block"
| "variables_loop ((var_name, var_data) # rest) variables_block =
     and_then (py_get var_data ''value'' (JStr [])) (\<lambda>val.
     and_then (py_get var_data ''isSecret'' (JBool False)) (\<lambda>is_secret.
     variables_loop rest
       (variables_block @ variable_entry var_name (py_str val) (lower (py_str is_secret)))))"

definition variablegroup_resource :: "string \<Rightarrow> string \<Rightarrow> string \<Rightarrow> string \<Rightarrow> string" where
  \<open>variablegroup_resource vg_resource_name_snake_case project_resource_name_snake_case
       vg_name variables_block =
     [nl] @ ''resource "azuredevops_variable_group" "'' @ vg_resource_name_snake_case @
       ''" {'' @ [nl] @
     ''  project_id = azuredevops_project.'' @ project_resource_name_snake_case @ ''.id'' @
       [nl] @
     ''  name       = "'' @ vg_name @ ''"'' @ [nl] @
     [nl] @
     ''  variable {'' @ [nl] @
     variables_block @ ''  }'' @ [nl] @
     ''}'' @ [nl]\<close>

definition variablegroup_import :: "string \<Rightarrow> string \<Rightarrow> string \<Rightarrow> string" where
  \<open>variablegroup_import project_id vg_id vg_resource_name_snake_case =
     [nl] @ ''import {'' @ [nl] @
     ''  id = "'' @ project_id @ ''/'' @ vg_id @ ''"'' @ [nl] @
     ''  to = azuredevops_variable_group.'' @ vg_resource_name_snake_case @ [nl] @
     ''}'' @ [nl]\<close>

text \<open>
  Lines 37 to 79, on the entity. \<^verbatim>\<open>projectReference\<close> is looked up twice, as in the
  source.
\<close>

definition variablegroup_blocks :: "json \<Rightarrow> py_exception + blocks" where
  "variablegroup_blocks dados_vg =
     and_then (py_get dados_vg ''id'' JNull) (\<lambda>vg_id.
     and_then (py_get dados_vg ''name'' JNull) (\<lambda>vg_name.
     and_then (and_then (py_get dados_vg ''projectReference'' (JObj []))
                 (\<lambda>r. py_get r ''id'' JNull)) (\<lambda>project_id.
     and_then (and_then (py_get dados_vg ''projectReference'' (JObj []))
                 (\<lambda>r. py_get r ''name'' JNull)) (\<lambda>project_name.
     and_then (py_get dados_vg ''variables'' (JObj [])) (\<lambda>variables.
     if \<not> py_all [vg_id, vg_name, project_id, project_name] then Inr (None, None)
     else
       and_then (py_sanitize vg_name ''unnamed_variablegroup'')
         (\<lambda>vg_resource_name_snake_case.
       and_then (py_sanitize project_name ''unnamed_project_ref'')
         (\<lambda>project_resource_name_snake_case.
       and_then (py_items variables) (\<lambda>items.
       and_then (variables_loop items []) (\<lambda>variables_block.
       let terraform_resource =
             variablegroup_resource vg_resource_name_snake_case
               project_resource_name_snake_case (py_str vg_name) variables_block;
           terraform_import_block =
             (if truthy vg_id \<and> truthy project_id
              then variablegroup_import (py_str project_id) (py_str vg_id)
                     vg_resource_name_snake_case
              else [])
       in Inr (Some terraform_resource, Some terraform_import_block))))))))))"

definition gerar_terraform_variablegroup_ado :: "loads_result \<Rightarrow> py_exception + blocks" where
  "gerar_terraform_variablegroup_ado json_variablegroup =
     (case select_dados json_variablegroup of
        None \<Rightarrow> Inr (None, None)
      | Some dados_vg \<Rightarrow> variablegroup_blocks dados_vg)"

section \<open>Definitions that follow the specification's words\<close>

subsection \<open>The sanitizer as the specification describes it\<close>

text \<open>
  The maximal runs of a list with respect to a class \<open>P\<close>: the list cut wherever
  membership in the class changes.
\<close>

fun runs :: "('a \<Rightarrow> bool) \<Rightarrow> 'a list \<Rightarrow> 'a list list" where
  "runs P [] = []"
| "runs P (x # xs) =
     (case runs P xs of
        [] \<Rightarrow> [[x]]
      | r # rs \<Rightarrow> if P x = P (hd r) then (x # r) # rs else [x] # r # rs)"

text \<open>A run of characters outside \<^verbatim>\<open>[a-z0-9]\<close> becomes one underscore; any other run stays.\<close>

fun replace_run :: "string \<Rightarrow> string" where
  "replace_run [] = []"
| "replace_run (c # cs) = (if az09 c then c # cs else ''_'')"

text \<open>
  Lowercase the input; replace every maximal run of characters outside \<^verbatim>\<open>[a-z0-9]\<close>
  with a single underscore; strip leading and trailing underscores; if the result is
  empty, return the fallback.
\<close>

definition sanitize_spec :: "string \<Rightarrow> string \<Rightarrow> string" where
  "sanitize_spec s f =
     (let t = strip_underscores (concat (map replace_run (runs az09 (lower s))))
      in if t = [] then f else t)"

text \<open>
  The strings made of characters of \<^verbatim>\<open>[a-z0-9]\<close> and of single underscores, each
  underscore followed by the end of the string or by a character of the class.
\<close>

fun clean :: "string \<Rightarrow> bool" where
  "clean [] = True"
| "clean [c] = (az09 c \<or> c = CHR ''_'')"
| "clean (c # d # cs) = ((az09 c \<or> (c = CHR ''_'' \<and> az09 d)) \<and> clean (d # cs))"

text \<open>
  The specification's sanitized identifier: not empty, made of characters of
  \<^verbatim>\<open>[a-z0-9]\<close> and single underscores, with no underscore at either end.
\<close>

definition sanitized_identifier :: "string \<Rightarrow> bool" where
  "sanitized_identifier s =
     (s \<noteq> [] \<and> clean s \<and> hd s \<noteq> CHR ''_'' \<and> last s \<noteq> CHR ''_'')"

text \<open>The fallback literals of the three generators.\<close>

definition fallbacks :: "string list" where
  "fallbacks =
     [''unnamed_project'', ''unnamed_repository'', ''unnamed_project_ref'',
      ''unnamed_variablegroup'']"

subsection \<open>Pages and their continuation headers\<close>

text \<open>A header carries a token when it is present with a non-empty value.\<close>

definition has_value :: "headers \<Rightarrow> string \<Rightarrow> bool" where
  "has_value hs name = (case headers_get hs name of None \<Rightarrow> False | Some t \<Rightarrow> t \<noteq> [])"

definition carries_token :: "headers \<Rightarrow> bool" where
  "carries_token hs =
     (has_value hs ''x-ms-continuationtoken'' \<or> has_value hs ''ContinuationToken'')"

text \<open>The token of a page: that of the primary header, else that of the other one.\<close>

definition token_of :: "headers \<Rightarrow> string" where
  "token_of hs =
     (if has_value hs ''x-ms-continuationtoken''
      then the (headers_get hs ''x-ms-continuationtoken'')
      else the (headers_get hs ''ContinuationToken''))"

text \<open>Lines 41 to 45: the URL of the request made with the token in hand.\<close>

definition request_url_of :: "string \<Rightarrow> string option \<Rightarrow> string" where
  "request_url_of current_url continuation_token =
     (case continuation_token of
        None \<Rightarrow> current_url
      | Some t \<Rightarrow> if t \<noteq> [] then url_with_token current_url t else current_url)"

text \<open>The two pages of the specification's pagination example.\<close>

definition example_pages :: "(json \<times> headers) list" where
  "example_pages =
     [(JObj [(''value'', JArr [JStr ''A'', JStr ''B''])],
       [(''x-ms-continuationtoken'', ''tok1'')]),
      (JObj [(''value'', JArr [JStr ''C''])], [])]"

definition example_server :: server where
  "example_server n u =
     (if n < length example_pages
      then Page (fst (example_pages ! n)) (snd (example_pages ! n))
      else RequestFailed)"

text \<open>
  Three pages for a second run: the first names its header in capitals, the second has
  an empty primary header and a token in the other one, the third has neither.
\<close>

definition three_pages :: "(json \<times> headers) list" where
  "three_pages =
     [(JObj [(''count'', JInt 1), (''value'', JArr [JInt 1])],
       [(''X-MS-ContinuationToken'', ''t1'')]),
      (JArr [JInt 2, JInt 3],
       [(''x-ms-continuationtoken'', []), (''ContinuationToken'', ''t2'')]),
      (JStr ''x'', [(''Content-Type'', ''application/json'')])]"

definition three_pages_server :: server where
  "three_pages_server n u =
     (if n < length three_pages
      then Page (fst (three_pages ! n)) (snd (three_pages ! n))
      else RequestFailed)"

subsection \<open>Entities and their fields\<close>

text \<open>
  The value of a field of an entity, with a default for a missing key; \<open>field\<close> has the
  default \<^verbatim>\<open>None\<close>. \<open>sub\<close> gives the entries of a nested object, none when the key is
  missing; \<open>opt_dict\<close> says that a key is missing or holds an object, which is when the
  chained \<^verbatim>\<open>.get\<close> on it does not raise. A name is a non-empty string.
\<close>

definition field_or :: "(string \<times> json) list \<Rightarrow> string \<Rightarrow> json \<Rightarrow> json" where
  "field_or kvs k d = (case map_of kvs k of None \<Rightarrow> d | Some v \<Rightarrow> v)"

definition field :: "(string \<times> json) list \<Rightarrow> string \<Rightarrow> json" where
  "field kvs k = field_or kvs k JNull"

definition opt_dict :: "(string \<times> json) list \<Rightarrow> string \<Rightarrow> bool" where
  "opt_dict kvs k = (case map_of kvs k of None \<Rightarrow> True | Some v \<Rightarrow> is_dict v)"

definition sub :: "(string \<times> json) list \<Rightarrow> string \<Rightarrow> (string \<times> json) list" where
  "sub kvs k = (case map_of kvs k of Some (JObj s) \<Rightarrow> s | _ \<Rightarrow> [])"

fun is_name :: "json \<Rightarrow> bool" where
  "is_name (JStr s) = (s \<noteq> [])"
| "is_name _ = False"

fun the_str :: "json \<Rightarrow> string" where
  "the_str (JStr s) = s"
| "the_str _ = []"

definition projeto_lookups_ok :: "(string \<times> json) list \<Rightarrow> bool" where
  "projeto_lookups_ok kvs =
     (opt_dict kvs ''capabilities'' \<and>
      opt_dict (sub kvs ''capabilities'') ''processTemplate'' \<and>
      opt_dict (sub kvs ''capabilities'') ''versioncontrol'')"

definition projeto_required :: "(string \<times> json) list \<Rightarrow> json list" where
  "projeto_required kvs = [field kvs ''id'', field kvs ''name'']"

definition repositorio_lookups_ok :: "(string \<times> json) list \<Rightarrow> bool" where
  "repositorio_lookups_ok kvs = opt_dict kvs ''project''"

definition repositorio_required :: "(string \<times> json) list \<Rightarrow> json list" where
  "repositorio_required kvs =
     [field kvs ''id'', field kvs ''name'',
      field (sub kvs ''project'') ''id'', field (sub kvs ''project'') ''name'']"

definition variablegroup_lookups_ok :: "(string \<times> json) list \<Rightarrow> bool" where
  "variablegroup_lookups_ok kvs = opt_dict kvs ''projectReference''"

definition variablegroup_required :: "(string \<times> json) list \<Rightarrow> json list" where
  "variablegroup_required kvs =
     [field kvs ''id'', field kvs ''name'',
      field (sub kvs ''projectReference'') ''id'', field (sub kvs ''projectReference'') ''name'']"

fun entries :: "json \<Rightarrow> (string \<times> json) list" where
  "entries (JObj kvs) = kvs"
| "entries _ = []"

definition raw_value :: "(string \<times> json) list \<Rightarrow> string" where
  "raw_value d = py_str (field_or d ''value'' (JStr []))"

definition secret_flag :: "(string \<times> json) list \<Rightarrow> bool" where
  "secret_flag d = (case map_of d ''isSecret'' of Some (JBool b) \<Rightarrow> b | _ \<Rightarrow> False)"

definition bool_literal :: "bool \<Rightarrow> string" where
  "bool_literal b = (if b then ''true'' else ''false'')"

definition variable_sub_block :: "string \<times> json \<Rightarrow> string" where
  \<open>variable_sub_block entry =
     ''    '' @ fst entry @ '' = {'' @ [nl] @
     ''      value     = "'' @ raw_value (entries (snd entry)) @ ''"'' @ [nl] @
     ''      is_secret = '' @ bool_literal (secret_flag (entries (snd entry))) @ [nl] @
     ''    }'' @ [nl]\<close>

definition flag_ok :: "json \<Rightarrow> bool" where
  "flag_ok var_data =
     (case map_of (entries var_data) ''isSecret'' of
        None \<Rightarrow> True | Some (JBool b) \<Rightarrow> True | Some _ \<Rightarrow> False)"

definition variables_ok :: "(string \<times> json) list \<Rightarrow> bool" where
  "variables_ok kvs =
     (opt_dict kvs ''variables'' \<and> list_all (\<lambda>entry. is_dict (snd entry)) (sub kvs ''variables''))"

definition flags_ok :: "(string \<times> json) list \<Rightarrow> bool" where
  "flags_ok kvs = list_all (\<lambda>entry. flag_ok (snd entry)) (sub kvs ''variables'')"

definition variable_text :: "string \<times> json \<Rightarrow> string" where
  "variable_text entry =
     variable_entry (fst entry)
       (py_str (field_or (entries (snd entry)) ''value'' (JStr [])))
       (lower (py_str (field_or (entries (snd entry)) ''isSecret'' (JBool False))))"

definition falsy_values :: "json list" where
  "falsy_values = [JNull, JBool False, JInt 0, JStr [], JArr [], JObj []]"

fun split_lines_from :: "string \<Rightarrow> string \<Rightarrow> string list" where
  "split_lines_from cur [] = [cur]"
| "split_lines_from cur (c # cs) =
     (if c = nl then cur # split_lines_from [] cs else split_lines_from (cur @ [c]) cs)"

definition split_lines :: "string \<Rightarrow> string list" where
  "split_lines s = split_lines_from [] s"

definition is_comment_line :: "string \<Rightarrow> bool" where
  "is_comment_line l =
     (case dropWhile (\<lambda>c. c = CHR '' '') l of [] \<Rightarrow> False | c # cs \<Rightarrow> c = CHR ''#'')"

definition code_lines :: "string \<Rightarrow> string list" where
  "code_lines s = filter (\<lambda>l. \<not> is_comment_line l) (split_lines s)"

section \<open>The sanitizer\<close>

lemma runs_Nil_iff: "runs P xs = [] \<longleftrightarrow> xs = []"
  by (cases xs) (auto split: list.splits)

lemma runs_unfold:
  "xs \<noteq> [] \<Longrightarrow>
   runs P xs = takeWhile (\<lambda>x. P x = P (hd xs)) xs # runs P (dropWhile (\<lambda>x. P x = P (hd xs)) xs)"
proof (induction xs)
  case Nil
  then show ?case by simp
next
  case (Cons x xs)
  show ?case
  proof (cases xs)
    case Nil
    then show ?thesis by simp
  next
    case (Cons y ys)
    with Cons.IH have IH: "runs P (y # ys) =
        takeWhile (\<lambda>z. P z = P y) (y # ys) # runs P (dropWhile (\<lambda>z. P z = P y) (y # ys))"
      by simp
    show ?thesis
    proof (cases "P x = P y")
      case True
      then have "(\<lambda>z. P z = P x) = (\<lambda>z. P z = P y)" by simp
      with True IH Cons show ?thesis by simp
    next
      case False
      then have "P y \<noteq> P x" by simp
      with IH Cons show ?thesis by simp
    qed
  qed
qed

lemma concat_runs: "concat (runs P xs) = xs"
  by (induction xs) (auto split: list.splits)

lemma runs_nonempty: "r \<in> set (runs P xs) \<Longrightarrow> r \<noteq> []"
  by (induction xs arbitrary: r) (auto split: list.splits if_splits)

lemma runs_constant: "r \<in> set (runs P xs) \<Longrightarrow> x \<in> set r \<Longrightarrow> P x = P (hd r)"
proof (induction xs arbitrary: r x)
  case Nil
  then show ?case by simp
next
  case (Cons a xs)
  show ?case
  proof (cases "runs P xs")
    case Nil
    with Cons.prems show ?thesis by simp
  next
    case (Cons r' rs)
    then have r': "\<And>y. y \<in> set r' \<Longrightarrow> P y = P (hd r')"
      using Cons.IH [of r'] by simp
    from Cons Cons.prems Cons.IH show ?thesis
      by (auto split: if_splits dest: r')
  qed
qed

lemma re_sub_underscore_runs:
  "re_sub_underscore xs = concat (map replace_run (runs az09 xs))"
proof (induction xs rule: re_sub_underscore.induct)
  case 1
  then show ?case by simp
next
  case (2 c cs)
  show ?case
  proof (cases "az09 c")
    case True
    with 2 have IH: "re_sub_underscore cs = concat (map replace_run (runs az09 cs))" by simp
    show ?thesis
    proof (cases "runs az09 cs")
      case Nil
      with True IH show ?thesis by simp
    next
      case (Cons r rs)
      then have "r \<noteq> []" using runs_nonempty [of r az09 cs] by simp
      then obtain d ds where "r = d # ds" by (cases r) auto
      with Cons True IH show ?thesis by simp
    qed
  next
    case False
    with 2 have IH: "re_sub_underscore (dropWhile (\<lambda>d. \<not> az09 d) cs) =
        concat (map replace_run (runs az09 (dropWhile (\<lambda>d. \<not> az09 d) cs)))" by simp
    from False have Q: "(\<lambda>x. az09 x = az09 c) = (\<lambda>d. \<not> az09 d)" by auto
    have "runs az09 (c # cs) =
        takeWhile (\<lambda>x. az09 x = az09 (hd (c # cs))) (c # cs) #
        runs az09 (dropWhile (\<lambda>x. az09 x = az09 (hd (c # cs))) (c # cs))"
      by (rule runs_unfold) simp
    with False Q have "runs az09 (c # cs) =
        (c # takeWhile (\<lambda>d. \<not> az09 d) cs) # runs az09 (dropWhile (\<lambda>d. \<not> az09 d) cs)"
      by simp
    with False IH show ?thesis by simp
  qed
qed

lemma sanitize_refines: "sanitize s f = sanitize_spec s f"
  by (simp add: sanitize_def sanitize_spec_def re_sub_underscore_runs)


lemma az09_underscore: "\<not> az09 (CHR ''_'')"
  by (simp add: az09_def)

lemma clean_Cons_az09: "az09 c \<Longrightarrow> clean (c # ys) = clean ys"
  by (cases ys) (auto simp: az09_underscore)

lemma clean_Cons_underscore:
  "clean (CHR ''_'' # ys) = ((ys = [] \<or> az09 (hd ys)) \<and> clean ys)"
  by (cases ys) (auto simp: az09_underscore)

lemma re_sub_underscore_hd:
  "ys = [] \<or> az09 (hd ys) \<Longrightarrow>
   re_sub_underscore ys = [] \<or> az09 (hd (re_sub_underscore ys))"
  by (cases ys) auto

lemma dropWhile_not_az09_hd:
  "dropWhile (\<lambda>d. \<not> az09 d) cs = [] \<or> az09 (hd (dropWhile (\<lambda>d. \<not> az09 d) cs))"
  using hd_dropWhile [of "\<lambda>d. \<not> az09 d" cs] by auto

lemma re_sub_underscore_clean: "clean (re_sub_underscore xs)"
proof (induction xs rule: re_sub_underscore.induct)
  case 1
  then show ?case by simp
next
  case (2 c cs)
  show ?case
  proof (cases "az09 c")
    case True
    with 2 show ?thesis by (simp add: clean_Cons_az09)
  next
    case False
    with 2 have "clean (re_sub_underscore (dropWhile (\<lambda>d. \<not> az09 d) cs))" by simp
    with False show ?thesis
      using re_sub_underscore_hd [OF dropWhile_not_az09_hd [of cs]]
      by (simp add: clean_Cons_underscore)
  qed
qed

lemma clean_re_sub_underscore: "clean xs \<Longrightarrow> re_sub_underscore xs = xs"
  by (induction xs rule: clean.induct) (auto simp: az09_underscore)

lemma clean_tl: "clean (x # xs) \<Longrightarrow> clean xs"
  by (cases xs) auto

lemma clean_append2: "clean (xs @ ys) \<Longrightarrow> clean ys"
  by (induction xs) (auto dest: clean_tl)

lemma clean_append1: "clean (xs @ ys) \<Longrightarrow> clean xs"
proof (induction xs rule: clean.induct)
  case 1
  then show ?case by simp
next
  case (2 c)
  then show ?case by (cases ys) auto
next
  case (3 c d cs)
  then show ?case by auto
qed

lemma clean_chars: "clean xs \<Longrightarrow> c \<in> set xs \<Longrightarrow> az09 c \<or> c = CHR ''_''"
  by (induction xs rule: clean.induct) auto

lemma lower_char_az09: "az09 c \<or> c = CHR ''_'' \<Longrightarrow> lower_char c = c"
  by (auto simp: lower_char_def is_upper_def az09_def Let_def)

lemma clean_lower: "clean xs \<Longrightarrow> lower xs = xs"
  unfolding lower_def
  by (rule map_idI) (metis lower_char_az09 clean_chars)

lemma clean_strip_underscores: "clean xs \<Longrightarrow> clean (strip_underscores xs)"
proof -
  assume c: "clean xs"
  let ?P = "\<lambda>c. c = CHR ''_''"
  let ?a = "dropWhile ?P xs"
  have "xs = takeWhile ?P xs @ ?a" by simp
  with c have a: "clean ?a" by (metis clean_append2)
  have "?a = rev (dropWhile ?P (rev ?a)) @ rev (takeWhile ?P (rev ?a))"
    by (metis rev_append rev_rev_ident takeWhile_dropWhile_id)
  with a have "clean (rev (dropWhile ?P (rev ?a)))" by (metis clean_append1)
  then show ?thesis by (simp add: strip_underscores_def)
qed


lemma dropWhile_fixed: "xs = [] \<or> \<not> P (hd xs) \<Longrightarrow> dropWhile P xs = xs"
  by (cases xs) auto

lemma hd_prefix: "xs = ys @ zs \<Longrightarrow> ys \<noteq> [] \<Longrightarrow> hd xs = hd ys"
  by simp

lemma rstrip_split: "a = rev (dropWhile P (rev a)) @ rev (takeWhile P (rev a))"
proof -
  have "rev a = takeWhile P (rev a) @ dropWhile P (rev a)" by simp
  then have "rev (rev a) = rev (takeWhile P (rev a) @ dropWhile P (rev a))"
    by (rule arg_cong)
  then show ?thesis by (simp only: rev_rev_ident rev_append)
qed

lemma rstrip_hd:
  assumes "rev (dropWhile P (rev a)) \<noteq> []"
  shows "hd (rev (dropWhile P (rev a))) = hd a"
  using rstrip_split [of a P] assms by (rule hd_prefix [symmetric])

lemma rstrip_last:
  assumes "rev (dropWhile P (rev a)) \<noteq> []"
  shows "\<not> P (last (rev (dropWhile P (rev a))))"
proof -
  from assms have b: "dropWhile P (rev a) \<noteq> []" by simp
  then have "\<not> P (hd (dropWhile P (rev a)))" by (rule hd_dropWhile)
  with b show ?thesis by (simp add: last_rev)
qed

lemma rstrip_nonempty:
  assumes "rev (dropWhile P (rev a)) \<noteq> []"
  shows "a \<noteq> []"
proof
  assume "a = []"
  then have "rev (dropWhile P (rev a)) = []" by simp
  with assms show False by (rule notE)
qed

lemma strip_underscores_ends:
  "strip_underscores s = [] \<or>
   (hd (strip_underscores s) \<noteq> CHR ''_'' \<and> last (strip_underscores s) \<noteq> CHR ''_'')"
proof (cases "strip_underscores s = []")
  case True
  then show ?thesis by (rule disjI1)
next
  case False
  let ?P = "\<lambda>c. c = CHR ''_''"
  let ?a = "dropWhile ?P s"
  have ne: "rev (dropWhile ?P (rev ?a)) \<noteq> []"
    using False unfolding strip_underscores_def .
  from ne have l: "\<not> ?P (last (rev (dropWhile ?P (rev ?a))))" by (rule rstrip_last)
  from ne have h: "hd (rev (dropWhile ?P (rev ?a))) = hd ?a" by (rule rstrip_hd)
  from ne have "?a \<noteq> []" by (rule rstrip_nonempty)
  then have "\<not> ?P (hd ?a)" by (rule hd_dropWhile)
  then have "\<not> ?P (hd (rev (dropWhile ?P (rev ?a))))" unfolding h .
  with l show ?thesis unfolding strip_underscores_def by blast
qed

lemma strip_underscores_fixed:
  "xs = [] \<or> (hd xs \<noteq> CHR ''_'' \<and> last xs \<noteq> CHR ''_'') \<Longrightarrow> strip_underscores xs = xs"
proof -
  assume a: "xs = [] \<or> (hd xs \<noteq> CHR ''_'' \<and> last xs \<noteq> CHR ''_'')"
  then have 1: "dropWhile (\<lambda>c. c = CHR ''_'') xs = xs"
    using dropWhile_fixed [of xs "\<lambda>c. c = CHR ''_''"] by blast
  from a have "rev xs = [] \<or> hd (rev xs) \<noteq> CHR ''_''" by (auto simp: hd_rev)
  then have 2: "dropWhile (\<lambda>c. c = CHR ''_'') (rev xs) = rev xs"
    using dropWhile_fixed [of "rev xs" "\<lambda>c. c = CHR ''_''"] by blast
  show ?thesis by (simp add: strip_underscores_def 1 2)
qed

lemma snake_case_fixed:
  "strip_underscores (re_sub_underscore (lower (strip_underscores (re_sub_underscore (lower s))))) =
   strip_underscores (re_sub_underscore (lower s))"
proof -
  let ?r = "strip_underscores (re_sub_underscore (lower s))"
  have c: "clean ?r" by (simp add: clean_strip_underscores re_sub_underscore_clean)
  then have "re_sub_underscore (lower ?r) = ?r"
    by (simp add: clean_lower clean_re_sub_underscore)
  then show ?thesis
    by (simp add: strip_underscores_fixed [OF strip_underscores_ends])
qed

lemma sanitize_twice:
  "sanitize (sanitize s f) f = (if strip_underscores (re_sub_underscore (lower s)) = [] then sanitize f f else sanitize s f)"
  using snake_case_fixed [of s] by (auto simp: sanitize_def Let_def)

lemma sanitize_empty: "sanitize [] f = f"
  by (simp add: sanitize_def strip_underscores_def lower_def)

lemma sanitize_idem_iff:
  "(\<forall>s. sanitize (sanitize s f) f = sanitize s f) \<longleftrightarrow> sanitize f f = f"
proof
  assume "\<forall>s. sanitize (sanitize s f) f = sanitize s f"
  then have "sanitize (sanitize [] f) f = sanitize [] f" by blast
  then show "sanitize f f = f" by (simp add: sanitize_empty)
next
  assume f: "sanitize f f = f"
  show "\<forall>s. sanitize (sanitize s f) f = sanitize s f"
  proof
    fix s
    show "sanitize (sanitize s f) f = sanitize s f"
      using f by (simp add: sanitize_twice) (simp add: sanitize_def)
  qed
qed

lemma eq_char_of_iff: "c = char_of n \<longleftrightarrow> take_bit 8 n = of_char c"
  using char_of_eq_iff [of n c] by auto

lemmas eval_simps =
  sanitize_def strip_underscores_def lower_def lower_char_def is_upper_def az09_def
  char_of_eq_iff eq_char_of_iff

lemma sanitize_bang: "sanitize ''!!!'' f = f"
  by (simp add: eval_simps)

lemma fallbacks_fixed: "f \<in> set fallbacks \<Longrightarrow> sanitize f f = f"
  by (auto simp: fallbacks_def eval_simps)

lemma sanitize_my_proj: "sanitize ''My Proj!'' f = ''my_proj''"
  by (simp add: eval_simps)

text \<open>
  Claim C3. For every string \<open>s\<close> and fallback \<open>f\<close>, the three lines of the generators
  compute what the specification describes: the lowercased input with every maximal run
  of characters outside \<^verbatim>\<open>[a-z0-9]\<close> replaced by one underscore and with leading and
  trailing underscores stripped, or \<open>f\<close> when that is empty. The empty string and
  \<^verbatim>\<open>"!!!"\<close> give the fallback. The function is total: lowercasing, substitution and
  stripping are defined on every string, so the model has no error result.
\<close>

theorem sanitize_meets_spec:
  "sanitize s f = sanitize_spec s f \<and> sanitize [] f = f \<and> sanitize ''!!!'' f = f"
  by (intro conjI sanitize_refines sanitize_empty sanitize_bang)

theorem sanitize_meets_spec_witness:
  "sanitize_spec ''My Proj!'' ''unnamed_project'' = ''my_proj'' \<and>
   sanitize [] ''unnamed_project'' = ''unnamed_project'' \<and>
   sanitize ''!!!'' ''unnamed_project'' = ''unnamed_project''"
  using sanitize_meets_spec [of "''My Proj!''" "''unnamed_project''"]
  by (simp add: sanitize_my_proj)

lemma sanitized_identifier_fixed: "sanitized_identifier f \<Longrightarrow> sanitize f f = f"
proof -
  assume a: "sanitized_identifier f"
  then have c: "clean f" by (simp add: sanitized_identifier_def)
  then have "re_sub_underscore (lower f) = f"
    by (simp add: clean_lower clean_re_sub_underscore)
  moreover from a have "strip_underscores f = f"
    by (simp add: sanitized_identifier_def strip_underscores_fixed)
  ultimately show ?thesis by (simp add: sanitize_def)
qed

lemma sanitize_idem_fixed: "sanitize f f = f \<Longrightarrow> sanitize (sanitize s f) f = sanitize s f"
proof -
  assume "sanitize f f = f"
  then have "\<forall>s. sanitize (sanitize s f) f = sanitize s f"
    by (simp only: sanitize_idem_iff)
  then show ?thesis by blast
qed

text \<open>
  Claim C4. Sanitization is idempotent: with each of the four fallback literals of the
  generators, sanitizing the result of a sanitization again gives the same result, for
  all strings. The same holds with any fallback that is itself a sanitized identifier,
  and, in general, exactly with the fallbacks that sanitization leaves unchanged.
\<close>

theorem sanitize_idempotent:
  "(f \<in> set fallbacks \<longrightarrow> sanitize (sanitize s f) f = sanitize s f) \<and>
   (sanitized_identifier f \<longrightarrow> sanitize (sanitize s f) f = sanitize s f) \<and>
   ((\<forall>s. sanitize (sanitize s f) f = sanitize s f) \<longleftrightarrow> sanitize f f = f)"
proof (intro conjI impI)
  assume "f \<in> set fallbacks"
  then have "sanitize f f = f" by (rule fallbacks_fixed)
  then show "sanitize (sanitize s f) f = sanitize s f" by (rule sanitize_idem_fixed)
next
  assume "sanitized_identifier f"
  then have "sanitize f f = f" by (rule sanitized_identifier_fixed)
  then show "sanitize (sanitize s f) f = sanitize s f" by (rule sanitize_idem_fixed)
next
  show "(\<forall>s. sanitize (sanitize s f) f = sanitize s f) \<longleftrightarrow> sanitize f f = f"
    by (rule sanitize_idem_iff)
qed

theorem sanitize_idempotent_witness:
  "''unnamed_project'' \<in> set fallbacks \<and>
   sanitize (sanitize ''My Proj!'' ''unnamed_project'') ''unnamed_project'' = ''my_proj'' \<and>
   sanitize (sanitize ''!!!'' ''unnamed_project'') ''unnamed_project'' = ''unnamed_project''"
  using sanitize_idempotent [of "''unnamed_project''" "''My Proj!''"]
    sanitize_idempotent [of "''unnamed_project''" "''!!!''"]
  by (simp add: fallbacks_def sanitize_my_proj sanitize_bang)

section \<open>The extractor\<close>

lemma first_list_None: "first_list kvs = None \<longleftrightarrow> (\<forall>(k, v) \<in> set kvs. \<not> is_list v)"
  by (induction kvs) (auto split: json.splits)

lemma first_list_first:
  "\<forall>(k', v) \<in> set pre. \<not> is_list v \<Longrightarrow> first_list (pre @ (k, JArr xs) # post) = Some xs"
  by (induction pre) (auto split: json.splits)

lemma map_of_value_list:
  "map_of kvs k = Some (JArr ys) \<Longrightarrow> \<exists>(k', v) \<in> set kvs. is_list v"
proof -
  assume "map_of kvs k = Some (JArr ys)"
  then have "(k, JArr ys) \<in> set kvs" by (rule map_of_SomeD)
  then show ?thesis by (intro bexI [of _ "(k, JArr ys)"]) simp_all
qed

lemma normalize_rule1:
  "map_of kvs ''value'' = Some (JArr xs) \<Longrightarrow> normalize_page (JObj kvs) = xs"
  by simp

lemma normalize_rule3:
  assumes "\<forall>ys. map_of kvs ''value'' \<noteq> Some (JArr ys)"
    and "kvs = pre @ (k, JArr xs) # post"
    and "\<forall>(k', v) \<in> set pre. \<not> is_list v"
  shows "normalize_page (JObj kvs) = xs"
proof -
  from assms(2,3) have "first_list kvs = Some xs" by (simp add: first_list_first)
  with assms(1) show ?thesis by (simp split: option.splits json.splits)
qed

lemma normalize_rule4_dict:
  assumes "\<forall>(k, v) \<in> set kvs. \<not> is_list v"
  shows "normalize_page (JObj kvs) = [JObj kvs]"
proof -
  from assms have "first_list kvs = None" by (simp add: first_list_None)
  moreover from assms have "\<forall>ys. map_of kvs ''value'' \<noteq> Some (JArr ys)"
    using map_of_value_list [of kvs "''value''"] by blast
  ultimately show ?thesis by (simp split: option.splits json.splits)
qed

lemma normalize_rule4_scalar: "\<not> is_dict v \<Longrightarrow> \<not> is_list v \<Longrightarrow> normalize_page v = [v]"
  by (cases v) auto

lemma normalize_example:
  "normalize_page (JObj [(''value'', JArr [JInt 1, JInt 2]), (''other'', JArr [JInt 3])]) =
     [JInt 1, JInt 2]"
  by simp

text \<open>
  Claim C2. The items of a page are found by the first rule that applies, in this order:
  (1) an object whose key \<^verbatim>\<open>"value"\<close> holds an array gives that array's elements;
  (2) an array gives its own elements; (3) any other object gives the elements of its
  first entry, in insertion order, whose value is an array; (4) an object with no such
  entry, and a value that is neither object nor array, gives the page itself as the
  only item. The rules cover every page. For the object with \<^verbatim>\<open>"value": [1,2]\<close> and
  \<^verbatim>\<open>"other": [3]\<close> the items are 1 and 2.
\<close>

theorem normalize_priority:
  "(map_of kvs ''value'' = Some (JArr xs) \<longrightarrow> normalize_page (JObj kvs) = xs) \<and>
   normalize_page (JArr xs) = xs \<and>
   ((\<forall>ys. map_of kvs ''value'' \<noteq> Some (JArr ys)) \<and> kvs = pre @ (k, JArr xs) # post \<and>
      (\<forall>(k', v) \<in> set pre. \<not> is_list v) \<longrightarrow> normalize_page (JObj kvs) = xs) \<and>
   ((\<forall>(k', v) \<in> set kvs. \<not> is_list v) \<longrightarrow> normalize_page (JObj kvs) = [JObj kvs]) \<and>
   (\<not> is_dict page \<and> \<not> is_list page \<longrightarrow> normalize_page page = [page]) \<and>
   normalize_page (JObj [(''value'', JArr [JInt 1, JInt 2]), (''other'', JArr [JInt 3])]) =
     [JInt 1, JInt 2]"
proof (intro conjI impI)
  assume "map_of kvs ''value'' = Some (JArr xs)"
  then show "normalize_page (JObj kvs) = xs" by (rule normalize_rule1)
next
  show "normalize_page (JArr xs) = xs" by simp
next
  assume a: "(\<forall>ys. map_of kvs ''value'' \<noteq> Some (JArr ys)) \<and> kvs = pre @ (k, JArr xs) # post \<and>
      (\<forall>(k', v) \<in> set pre. \<not> is_list v)"
  show "normalize_page (JObj kvs) = xs"
    by (rule normalize_rule3 [of kvs pre k xs post]) (use a in blast)+
next
  assume "\<forall>(k', v) \<in> set kvs. \<not> is_list v"
  then show "normalize_page (JObj kvs) = [JObj kvs]" by (rule normalize_rule4_dict)
next
  assume "\<not> is_dict page \<and> \<not> is_list page"
  then show "normalize_page page = [page]" by (simp add: normalize_rule4_scalar)
next
  show "normalize_page (JObj [(''value'', JArr [JInt 1, JInt 2]), (''other'', JArr [JInt 3])]) =
     [JInt 1, JInt 2]"
    by (rule normalize_example)
qed


theorem normalize_priority_witness:
  "normalize_page (JObj [(''count'', JInt 2), (''items'', JArr [JStr ''a'']), (''more'', JArr [])]) =
     [JStr ''a''] \<and>
   normalize_page (JObj [(''count'', JInt 2)]) = [JObj [(''count'', JInt 2)]] \<and>
   normalize_page (JStr ''x'') = [JStr ''x''] \<and>
   normalize_page (JObj [(''value'', JArr [JInt 1])]) = [JInt 1]"
proof -
  have a: "normalize_page (JObj [(''count'', JInt 2), (''items'', JArr [JStr ''a'']), (''more'', JArr [])]) =
     [JStr ''a''] \<and> normalize_page (JStr ''x'') = [JStr ''x'']"
    using normalize_priority [of "[(''count'', JInt 2), (''items'', JArr [JStr ''a'']), (''more'', JArr [])]"
      "[JStr ''a'']" "[(''count'', JInt 2)]" "''items''" "[(''more'', JArr [])]" "JStr ''x''"]
    by (simp del: normalize_page.simps)
  have b: "normalize_page (JObj [(''count'', JInt 2)]) = [JObj [(''count'', JInt 2)]]"
    using normalize_priority [of "[(''count'', JInt 2)]" "[]" "[]" "''k''" "[]" "JStr ''x''"]
    by (simp del: normalize_page.simps)
  have c: "normalize_page (JObj [(''value'', JArr [JInt 1])]) = [JInt 1]"
    using normalize_priority [of "[(''value'', JArr [JInt 1])]" "[JInt 1]" "[]" "''k''" "[]" "JNull"]
    by (simp del: normalize_page.simps)
  from a b c show ?thesis by blast
qed


subsection \<open>The pagination loop\<close>

lemma no_token_next_token: "no_token (next_token hs) \<longleftrightarrow> \<not> carries_token hs"
  by (auto simp: no_token_def next_token_def carries_token_def has_value_def Let_def
           split: option.splits)

lemma next_token_token_of: "carries_token hs \<Longrightarrow> next_token hs = Some (token_of hs)"
  by (auto simp: no_token_def next_token_def carries_token_def has_value_def token_of_def Let_def
           split: option.splits)

lemma token_of_nonempty: "carries_token hs \<Longrightarrow> token_of hs \<noteq> []"
  by (auto simp: carries_token_def has_value_def token_of_def split: option.splits)

lemma extract_loop_run:
  "k < length pages \<Longrightarrow>
   \<forall>i<k. carries_token (snd (pages ! i)) \<Longrightarrow>
   \<not> carries_token (snd (pages ! k)) \<Longrightarrow>
   \<forall>i\<le>k. \<forall>u. srv (n + i) u = Page (fst (pages ! i)) (snd (pages ! i)) \<Longrightarrow>
   extract_loop srv url n tok acc reqs =
     Some (Inr (acc @ concat (map (\<lambda>p. normalize_page (fst p)) (take (Suc k) pages)),
                reqs @ request_url_of url tok #
                  map (\<lambda>p. url_with_token url (token_of (snd p))) (take k pages)))"
proof (induction k arbitrary: pages n tok acc reqs)
  case 0
  then obtain p ps where pages: "pages = p # ps" by (cases pages) auto
  from 0 pages have srv: "srv n (request_url_of url tok) = Page (fst p) (snd p)" 
    by (metis add.right_neutral le0 nth_Cons_0)
  from 0 pages have "no_token (next_token (snd p))" by (simp add: no_token_next_token)
  with srv pages show ?case
    by (subst extract_loop.simps) (simp add: request_url_of_def [symmetric])
next
  case (Suc k)
  then obtain p ps where pages: "pages = p # ps" by (cases pages) auto
  from Suc.prems pages have srv: "srv n (request_url_of url tok) = Page (fst p) (snd p)"
    by (metis add.right_neutral le0 nth_Cons_0)
  from Suc.prems pages have c: "carries_token (snd p)" by auto
  then have nt: "\<not> no_token (next_token (snd p))" by (simp add: no_token_next_token)
  have k: "k < length ps" using Suc.prems pages by simp
  have a: "\<forall>i<k. carries_token (snd (ps ! i))" using Suc.prems(2) pages by auto
  have b: "\<not> carries_token (snd (ps ! k))" using Suc.prems(3) pages by simp
  have s: "\<forall>i\<le>k. \<forall>u. srv (Suc n + i) u = Page (fst (ps ! i)) (snd (ps ! i))"
  proof (intro allI impI)
    fix i u assume "i \<le> k"
    then have "srv (n + Suc i) u = Page (fst (pages ! Suc i)) (snd (pages ! Suc i))"
      using Suc.prems(4) by (meson Suc_le_mono)
    then show "srv (Suc n + i) u = Page (fst (ps ! i)) (snd (ps ! i))"
      by (simp add: pages)
  qed
  have step: "extract_loop srv url n tok acc reqs =
      extract_loop srv url (Suc n) (next_token (snd p)) (acc @ normalize_page (fst p))
        (reqs @ [request_url_of url tok])"
    using srv nt by (subst extract_loop.simps) (simp add: request_url_of_def [symmetric])
  have u: "request_url_of url (next_token (snd p)) = url_with_token url (token_of (snd p))"
    using c by (simp add: next_token_token_of request_url_of_def token_of_nonempty)
  show ?case
    unfolding step Suc.IH [OF k a b s] by (simp add: pages u)
qed

lemma extract_all_data_run:
  assumes "k < length pages"
    and "\<forall>i<k. carries_token (snd (pages ! i))"
    and "\<not> carries_token (snd (pages ! k))"
    and "\<forall>i\<le>k. \<forall>u. srv i u = Page (fst (pages ! i)) (snd (pages ! i))"
  shows "extract_all_data srv url =
     Some (Inr (concat (map (\<lambda>p. normalize_page (fst p)) (take (Suc k) pages)),
                url # map (\<lambda>p. url_with_token url (token_of (snd p))) (take k pages)))"
  using extract_loop_run [of k pages srv 0 url None "[]" "[]"] assms
  by (simp add: extract_all_data_def request_url_of_def)

lemmas header_simps = headers_get_def has_value_def carries_token_def token_of_def
  lower_def lower_char_def is_upper_def char_of_eq_iff eq_char_of_iff

lemma example_tokens:
  "carries_token (snd (example_pages ! 0))"
  "\<not> carries_token (snd (example_pages ! 1))"
  "token_of (snd (example_pages ! 0)) = ''tok1''"
  by (simp_all add: example_pages_def header_simps)

lemma extract_all_data_example:
  "extract_all_data example_server url =
     Some (Inr ([JStr ''A'', JStr ''B'', JStr ''C''], [url, url_with_token url ''tok1'']))"
proof -
  have 1: "(1::nat) < length example_pages" by (simp add: example_pages_def)
  have 2: "\<forall>i<1. carries_token (snd (example_pages ! i))" by (simp add: example_tokens)
  have 3: "\<not> carries_token (snd (example_pages ! 1))" by (rule example_tokens)
  have 4: "\<forall>i\<le>1. \<forall>u. example_server i u = Page (fst (example_pages ! i)) (snd (example_pages ! i))"
    by (simp add: example_server_def example_pages_def)
  have 5: "take (Suc 0) example_pages = [example_pages ! 0]"
    by (simp add: example_pages_def)
  show ?thesis
    unfolding extract_all_data_run [OF 1 2 3 4] 
    by (simp add: 5 example_tokens) (simp add: example_pages_def)
qed

text \<open>
  Claim C1. Let the server answer request number \<open>i\<close> with page \<open>i\<close> of a sequence,
  and let page \<open>k\<close> be the first whose headers carry no continuation token (neither the
  primary header nor the other one is present with a value). Then the loop returns,
  after exactly \<open>k + 1\<close> requests, the items of pages \<open>0\<close> to \<open>k\<close> in page order, each
  page's items in their own order. The first request goes to the URL given; the request
  after a page carries that page's token, the primary header's when it has one and the
  other header's otherwise. For the two pages of the specification's example the result
  is A, B, C, from two requests.
\<close>

theorem extract_all_data_pages:
  "(k < length pages \<and> (\<forall>i<k. carries_token (snd (pages ! i))) \<and>
    \<not> carries_token (snd (pages ! k)) \<and>
    (\<forall>i\<le>k. \<forall>u. srv i u = Page (fst (pages ! i)) (snd (pages ! i))) \<longrightarrow>
    extract_all_data srv url =
      Some (Inr (concat (map (\<lambda>p. normalize_page (fst p)) (take (Suc k) pages)),
                 url # map (\<lambda>p. url_with_token url (token_of (snd p))) (take k pages)))) \<and>
   extract_all_data example_server url =
     Some (Inr ([JStr ''A'', JStr ''B'', JStr ''C''], [url, url_with_token url ''tok1'']))"
  using extract_all_data_run [of k pages srv url] extract_all_data_example [of url]
  by blast


lemma three_pages_tokens:
  "carries_token (snd (three_pages ! 0))"
  "carries_token (snd (three_pages ! 1))"
  "carries_token (snd (three_pages ! Suc 0))"
  "\<not> carries_token (snd (three_pages ! 2))"
  "token_of (snd (three_pages ! 0)) = ''t1''"
  "token_of (snd (three_pages ! 1)) = ''t2''"
  by (simp_all add: three_pages_def header_simps)

theorem extract_all_data_pages_witness:
  "extract_all_data three_pages_server ''https://dev.azure.com/o/_apis/projects?api-version=7.1'' =
     Some (Inr ([JInt 1, JInt 2, JInt 3, JStr ''x''],
       [''https://dev.azure.com/o/_apis/projects?api-version=7.1'',
        ''https://dev.azure.com/o/_apis/projects?api-version=7.1&continuationToken=t1'',
        ''https://dev.azure.com/o/_apis/projects?api-version=7.1&continuationToken=t2'']))"
proof -
  have 1: "(2::nat) < length three_pages" by (simp add: three_pages_def)
  have 2: "\<forall>i<2. carries_token (snd (three_pages ! i))"
    by (simp add: three_pages_tokens less_Suc_eq numeral_2_eq_2)
  have 3: "\<not> carries_token (snd (three_pages ! 2))" by (rule three_pages_tokens)
  have 4: "\<forall>i\<le>2. \<forall>u. three_pages_server i u =
      Page (fst (three_pages ! i)) (snd (three_pages ! i))"
    by (simp add: three_pages_server_def three_pages_def)
  have 5: "concat (map (\<lambda>p. normalize_page (fst p)) (take (Suc 2) three_pages)) =
      [JInt 1, JInt 2, JInt 3, JStr ''x'']"
    by (simp add: three_pages_def)
  have 6: "map (\<lambda>p. url_with_token ''https://dev.azure.com/o/_apis/projects?api-version=7.1''
                  (token_of (snd p))) (take 2 three_pages) =
       [''https://dev.azure.com/o/_apis/projects?api-version=7.1&continuationToken=t1'',
        ''https://dev.azure.com/o/_apis/projects?api-version=7.1&continuationToken=t2'']"
    by (simp add: three_pages_def header_simps url_with_token_def)
  from extract_all_data_pages [of 2 three_pages three_pages_server
      "''https://dev.azure.com/o/_apis/projects?api-version=7.1''"] 1 2 3 4
  have "extract_all_data three_pages_server ''https://dev.azure.com/o/_apis/projects?api-version=7.1'' =
      Some (Inr (concat (map (\<lambda>p. normalize_page (fst p)) (take (Suc 2) three_pages)),
        ''https://dev.azure.com/o/_apis/projects?api-version=7.1'' #
        map (\<lambda>p. url_with_token ''https://dev.azure.com/o/_apis/projects?api-version=7.1''
                  (token_of (snd p))) (take 2 three_pages)))"
    by blast
  then show ?thesis
    by (simp only: 5 6)
qed

section \<open>The generators\<close>

lemma and_then_Inl [simp]: "and_then (Inl e) f = Inl e"
  by (simp add: and_then_def)

lemma and_then_Inr [simp]: "and_then (Inr v) f = f v"
  by (simp add: and_then_def)

lemma py_get_dict: "py_get (JObj kvs) k d = Inr (field_or kvs k d)"
  by (simp add: field_or_def)

lemma py_get_not_dict: "\<not> is_dict v \<Longrightarrow> py_get v k d = Inl AttributeError"
  by (cases v) auto

lemma opt_dict_field_or: "opt_dict kvs k \<Longrightarrow> field_or kvs k (JObj []) = JObj (sub kvs k)"
  by (auto simp: opt_dict_def field_or_def sub_def split: option.splits json.splits)

lemma not_opt_dict_field_or: "\<not> opt_dict kvs k \<Longrightarrow> \<not> is_dict (field_or kvs k d)"
  by (auto simp: opt_dict_def field_or_def split: option.splits)

lemma py_sanitize_name: "is_name v \<Longrightarrow> py_sanitize v f = Inr (sanitize (the_str v) f)"
  by (cases v) auto

lemma py_sanitize_not_str: "truthy v \<Longrightarrow> \<not> is_name v \<Longrightarrow> py_sanitize v f = Inl AttributeError"
  by (cases v) auto

lemma is_name_truthy: "is_name v \<Longrightarrow> truthy v"
  by (cases v) auto

lemma projeto_blocks_ok:
  assumes "projeto_lookups_ok kvs"
  shows "projeto_blocks (JObj kvs) =
     (if \<not> py_all (projeto_required kvs) then Inr (None, None)
      else if \<not> is_name (field kvs ''name'') then Inl AttributeError
      else Inr
        (Some (projeto_resource (sanitize (the_str (field kvs ''name'')) ''unnamed_project'')
                 (the_str (field kvs ''name''))
                 (json_dumps (field_or kvs ''description'' (JStr [])))
                 (py_str (field_or kvs ''visibility'' (JStr ''private'')))
                 (py_str (field_or (sub (sub kvs ''capabilities'') ''versioncontrol'')
                            ''sourceControlType'' (JStr ''Git'')))
                 (py_str (field_or (sub (sub kvs ''capabilities'') ''processTemplate'')
                            ''templateName'' (JStr ''Agile'')))),
         Some (projeto_import (py_str (field kvs ''id''))
                 (sanitize (the_str (field kvs ''name'')) ''unnamed_project''))))"
proof -
  from assms have c: "field_or kvs ''capabilities'' (JObj []) = JObj (sub kvs ''capabilities'')"
    and p: "field_or (sub kvs ''capabilities'') ''processTemplate'' (JObj []) =
        JObj (sub (sub kvs ''capabilities'') ''processTemplate'')"
    and v: "field_or (sub kvs ''capabilities'') ''versioncontrol'' (JObj []) =
        JObj (sub (sub kvs ''capabilities'') ''versioncontrol'')"
    by (simp_all add: projeto_lookups_ok_def opt_dict_field_or)
  show ?thesis
  proof (cases "py_all (projeto_required kvs)")
    case False
    then show ?thesis
      by (simp add: projeto_blocks_def py_get_dict c p v projeto_required_def field_def
          del: py_get.simps)
  next
    case True
    then have t: "truthy (field kvs ''id'')" "truthy (field kvs ''name'')"
      by (simp_all add: projeto_required_def py_all_def)
    show ?thesis
    proof (cases "is_name (field kvs ''name'')")
      case False
      with t have "py_sanitize (field kvs ''name'') ''unnamed_project'' = Inl AttributeError"
        by (simp add: py_sanitize_not_str)
      with True False show ?thesis
        by (simp add: projeto_blocks_def py_get_dict c p v projeto_required_def field_def
            del: py_get.simps)
    next
      case n: True
      then obtain s where s: "field kvs ''name'' = JStr s" by (cases "field kvs ''name''") auto
      with True t n show ?thesis
        by (simp add: projeto_blocks_def py_get_dict c p v projeto_required_def field_def
            Let_def del: py_get.simps)
    qed
  qed
qed

lemma projeto_blocks_raise:
  assumes "\<not> projeto_lookups_ok kvs"
  shows "projeto_blocks (JObj kvs) = Inl AttributeError"
proof (cases "opt_dict kvs ''capabilities''")
  case False
  then have "\<not> is_dict (field_or kvs ''capabilities'' (JObj []))" by (rule not_opt_dict_field_or)
  then show ?thesis
    by (simp add: projeto_blocks_def py_get_dict py_get_not_dict del: py_get.simps)
next
  case True
  then have c: "field_or kvs ''capabilities'' (JObj []) = JObj (sub kvs ''capabilities'')"
    by (rule opt_dict_field_or)
  show ?thesis
  proof (cases "opt_dict (sub kvs ''capabilities'') ''processTemplate''")
    case False
    then have "\<not> is_dict (field_or (sub kvs ''capabilities'') ''processTemplate'' (JObj []))"
      by (rule not_opt_dict_field_or)
    then show ?thesis
      by (simp add: projeto_blocks_def py_get_dict c py_get_not_dict del: py_get.simps)
  next
    case p: True
    then have p': "field_or (sub kvs ''capabilities'') ''processTemplate'' (JObj []) =
        JObj (sub (sub kvs ''capabilities'') ''processTemplate'')"
      by (rule opt_dict_field_or)
    from assms True p have "\<not> opt_dict (sub kvs ''capabilities'') ''versioncontrol''"
      by (simp add: projeto_lookups_ok_def)
    then have "\<not> is_dict (field_or (sub kvs ''capabilities'') ''versioncontrol'' (JObj []))"
      by (rule not_opt_dict_field_or)
    then show ?thesis
      by (simp add: projeto_blocks_def py_get_dict c p' py_get_not_dict del: py_get.simps)
  qed
qed


lemma repositorio_blocks_ok:
  assumes "repositorio_lookups_ok kvs"
  shows "repositorio_blocks (JObj kvs) =
     (if \<not> py_all (repositorio_required kvs) then Inr (None, None)
      else if \<not> is_name (field kvs ''name'') \<or> \<not> is_name (field (sub kvs ''project'') ''name'')
      then Inl AttributeError
      else Inr
        (Some (repositorio_resource
                 (sanitize (the_str (field kvs ''name'')) ''unnamed_repository'')
                 (sanitize (the_str (field (sub kvs ''project'') ''name'')) ''unnamed_project_ref'')
                 (the_str (field kvs ''name''))),
         Some (repositorio_import (py_str (field (sub kvs ''project'') ''id''))
                 (py_str (field kvs ''id''))
                 (sanitize (the_str (field kvs ''name'')) ''unnamed_repository''))))"
proof -
  from assms have c: "field_or kvs ''project'' (JObj []) = JObj (sub kvs ''project'')"
    by (simp add: repositorio_lookups_ok_def opt_dict_field_or)
  show ?thesis
  proof (cases "py_all (repositorio_required kvs)")
    case False
    then show ?thesis
      by (simp add: repositorio_blocks_def py_get_dict c repositorio_required_def field_def
          del: py_get.simps)
  next
    case True
    then have t: "truthy (field kvs ''id'')" "truthy (field kvs ''name'')"
      "truthy (field (sub kvs ''project'') ''id'')" "truthy (field (sub kvs ''project'') ''name'')"
      by (simp_all add: repositorio_required_def py_all_def)
    show ?thesis
    proof (cases "is_name (field kvs ''name'')")
      case False
      with t have "py_sanitize (field kvs ''name'') ''unnamed_repository'' = Inl AttributeError"
        by (simp add: py_sanitize_not_str)
      with True False show ?thesis
        by (simp add: repositorio_blocks_def py_get_dict c repositorio_required_def field_def
            del: py_get.simps)
    next
      case n: True
      then have sn: "py_sanitize (field kvs ''name'') ''unnamed_repository'' =
          Inr (sanitize (the_str (field kvs ''name'')) ''unnamed_repository'')"
        by (rule py_sanitize_name)
      from n obtain s where s: "field kvs ''name'' = JStr s" by (cases "field kvs ''name''") auto
      show ?thesis
      proof (cases "is_name (field (sub kvs ''project'') ''name'')")
        case False
        with t have "py_sanitize (field (sub kvs ''project'') ''name'') ''unnamed_project_ref'' =
            Inl AttributeError"
          by (simp add: py_sanitize_not_str)
        with True False n sn show ?thesis
          by (simp add: repositorio_blocks_def py_get_dict c repositorio_required_def field_def
              del: py_get.simps)
      next
        case pn: True
        then have "py_sanitize (field (sub kvs ''project'') ''name'') ''unnamed_project_ref'' =
            Inr (sanitize (the_str (field (sub kvs ''project'') ''name'')) ''unnamed_project_ref'')"
          by (rule py_sanitize_name)
        with True t n pn sn s show ?thesis
          by (simp add: repositorio_blocks_def py_get_dict c repositorio_required_def field_def
              Let_def del: py_get.simps)
      qed
    qed
  qed
qed

lemma repositorio_blocks_raise:
  assumes "\<not> repositorio_lookups_ok kvs"
  shows "repositorio_blocks (JObj kvs) = Inl AttributeError"
proof -
  from assms have "\<not> is_dict (field_or kvs ''project'' (JObj []))"
    by (simp add: repositorio_lookups_ok_def not_opt_dict_field_or)
  then show ?thesis
    by (simp add: repositorio_blocks_def py_get_dict py_get_not_dict del: py_get.simps)
qed

lemma variables_loop_ok:
  "list_all (\<lambda>entry. is_dict (snd entry)) vs \<Longrightarrow>
   variables_loop vs acc = Inr (acc @ concat (map variable_text vs))"
proof (induction vs arbitrary: acc)
  case Nil
  then show ?case by simp
next
  case (Cons e vs)
  obtain k v where e: "e = (k, v)" by (cases e)
  with Cons.prems obtain d where v: "v = JObj d" by (cases v) auto
  from Cons.prems have "list_all (\<lambda>entry. is_dict (snd entry)) vs" by simp
  then have "\<And>acc. variables_loop vs acc = Inr (acc @ concat (map variable_text vs))"
    by (rule Cons.IH)
  moreover have "variable_text (k, JObj d) =
      variable_entry k (py_str (field_or d ''value'' (JStr [])))
        (lower (py_str (field_or d ''isSecret'' (JBool False))))"
    by (simp add: variable_text_def)
  ultimately show ?case
    by (simp add: e v py_get_dict del: py_get.simps)
qed

lemma variables_loop_raise:
  "\<not> list_all (\<lambda>entry. is_dict (snd entry)) vs \<Longrightarrow> variables_loop vs acc = Inl AttributeError"
proof (induction vs arbitrary: acc)
  case Nil
  then show ?case by simp
next
  case (Cons e vs)
  obtain k v where e: "e = (k, v)" by (cases e)
  show ?case
  proof (cases "is_dict v")
    case False
    then show ?thesis by (simp add: e py_get_not_dict del: py_get.simps)
  next
    case True
    then obtain d where v: "v = JObj d" by (cases v) auto
    from True Cons.prems e have "\<not> list_all (\<lambda>entry. is_dict (snd entry)) vs" by simp
    then have "\<And>acc. variables_loop vs acc = Inl AttributeError" by (rule Cons.IH)
    then show ?thesis by (simp add: e v py_get_dict del: py_get.simps)
  qed
qed

lemma lower_py_str_bool: "lower (py_str (JBool b)) = bool_literal b"
  by (cases b) (simp_all add: bool_literal_def lower_def lower_char_def is_upper_def
      char_of_eq_iff eq_char_of_iff)

lemma variable_text_sub_block: "flag_ok (snd entry) \<Longrightarrow> variable_text entry = variable_sub_block entry"
  by (auto simp: flag_ok_def variable_text_def variable_sub_block_def variable_entry_def
      raw_value_def secret_flag_def field_or_def lower_py_str_bool [symmetric]
      simp del: py_str.simps
      split: option.splits json.splits)


lemma py_items_not_dict: "\<not> is_dict v \<Longrightarrow> py_items v = Inl AttributeError"
  by (cases v) auto

lemma variablegroup_variables:
  "and_then (py_items (field_or kvs ''variables'' (JObj []))) (\<lambda>items.
     and_then (variables_loop items []) f) =
   (if variables_ok kvs then f (concat (map variable_text (sub kvs ''variables'')))
    else Inl AttributeError)"
proof (cases "opt_dict kvs ''variables''")
  case False
  then have "\<not> is_dict (field_or kvs ''variables'' (JObj []))" by (rule not_opt_dict_field_or)
  with False show ?thesis by (simp add: py_items_not_dict variables_ok_def)
next
  case True
  then have "field_or kvs ''variables'' (JObj []) = JObj (sub kvs ''variables'')"
    by (rule opt_dict_field_or)
  with True show ?thesis
    by (simp add: variables_ok_def variables_loop_ok variables_loop_raise)
qed

lemma variablegroup_blocks_ok:
  assumes "variablegroup_lookups_ok kvs"
  shows "variablegroup_blocks (JObj kvs) =
     (if \<not> py_all (variablegroup_required kvs) then Inr (None, None)
      else if \<not> is_name (field kvs ''name'') \<or>
              \<not> is_name (field (sub kvs ''projectReference'') ''name'') \<or>
              \<not> variables_ok kvs
      then Inl AttributeError
      else Inr
        (Some (variablegroup_resource
                 (sanitize (the_str (field kvs ''name'')) ''unnamed_variablegroup'')
                 (sanitize (the_str (field (sub kvs ''projectReference'') ''name''))
                    ''unnamed_project_ref'')
                 (the_str (field kvs ''name''))
                 (concat (map variable_text (sub kvs ''variables'')))),
         Some (variablegroup_import (py_str (field (sub kvs ''projectReference'') ''id''))
                 (py_str (field kvs ''id''))
                 (sanitize (the_str (field kvs ''name'')) ''unnamed_variablegroup''))))"
proof -
  from assms have c: "field_or kvs ''projectReference'' (JObj []) =
      JObj (sub kvs ''projectReference'')"
    by (simp add: variablegroup_lookups_ok_def opt_dict_field_or)
  note defs = variablegroup_blocks_def py_get_dict c variablegroup_required_def field_def
    variablegroup_variables
  show ?thesis
  proof (cases "py_all (variablegroup_required kvs)")
    case False
    then show ?thesis by (simp add: defs del: py_get.simps)
  next
    case True
    then have t: "truthy (field kvs ''id'')" "truthy (field kvs ''name'')"
      "truthy (field (sub kvs ''projectReference'') ''id'')"
      "truthy (field (sub kvs ''projectReference'') ''name'')"
      by (simp_all add: variablegroup_required_def py_all_def)
    show ?thesis
    proof (cases "is_name (field kvs ''name'')")
      case False
      with t have "py_sanitize (field kvs ''name'') ''unnamed_variablegroup'' = Inl AttributeError"
        by (simp add: py_sanitize_not_str)
      with True False show ?thesis by (simp add: defs del: py_get.simps)
    next
      case n: True
      then have sn: "py_sanitize (field kvs ''name'') ''unnamed_variablegroup'' =
          Inr (sanitize (the_str (field kvs ''name'')) ''unnamed_variablegroup'')"
        by (rule py_sanitize_name)
      from n obtain s where s: "field kvs ''name'' = JStr s" by (cases "field kvs ''name''") auto
      show ?thesis
      proof (cases "is_name (field (sub kvs ''projectReference'') ''name'')")
        case False
        with t have "py_sanitize (field (sub kvs ''projectReference'') ''name'')
            ''unnamed_project_ref'' = Inl AttributeError"
          by (simp add: py_sanitize_not_str)
        with True False n sn show ?thesis by (simp add: defs del: py_get.simps)
      next
        case pn: True
        then have "py_sanitize (field (sub kvs ''projectReference'') ''name'')
            ''unnamed_project_ref'' =
            Inr (sanitize (the_str (field (sub kvs ''projectReference'') ''name''))
                   ''unnamed_project_ref'')"
          by (rule py_sanitize_name)
        with True t n pn sn s show ?thesis
          by (simp add: defs Let_def del: py_get.simps)
      qed
    qed
  qed
qed

lemma variablegroup_blocks_raise:
  assumes "\<not> variablegroup_lookups_ok kvs"
  shows "variablegroup_blocks (JObj kvs) = Inl AttributeError"
proof -
  from assms have "\<not> is_dict (field_or kvs ''projectReference'' (JObj []))"
    by (simp add: variablegroup_lookups_ok_def not_opt_dict_field_or)
  then show ?thesis
    by (simp add: variablegroup_blocks_def py_get_dict py_get_not_dict del: py_get.simps)
qed

lemma gerar_dict [simp]:
  "gerar_terraform_projeto_ado (Loaded (JObj kvs)) = projeto_blocks (JObj kvs)"
  "gerar_terraform_repositorio_ado (Loaded (JObj kvs)) = repositorio_blocks (JObj kvs)"
  "gerar_terraform_variablegroup_ado (Loaded (JObj kvs)) = variablegroup_blocks (JObj kvs)"
  by (simp_all add: gerar_terraform_projeto_ado_def gerar_terraform_repositorio_ado_def
      gerar_terraform_variablegroup_ado_def)

lemma gerar_list [simp]:
  "gerar_terraform_projeto_ado (Loaded (JArr (x # xs))) = projeto_blocks x"
  "gerar_terraform_repositorio_ado (Loaded (JArr (x # xs))) = repositorio_blocks x"
  "gerar_terraform_variablegroup_ado (Loaded (JArr (x # xs))) = variablegroup_blocks x"
  by (simp_all add: gerar_terraform_projeto_ado_def gerar_terraform_repositorio_ado_def
      gerar_terraform_variablegroup_ado_def)

lemma blocks_not_dict:
  assumes "\<not> is_dict x"
  shows "projeto_blocks x = Inl AttributeError"
    and "repositorio_blocks x = Inl AttributeError"
    and "variablegroup_blocks x = Inl AttributeError"
  using assms
  by (simp_all add: projeto_blocks_def repositorio_blocks_def variablegroup_blocks_def
      py_get_not_dict del: py_get.simps)


lemma gerar_select:
  assumes "select_dados inp = Some x"
  shows "gerar_terraform_projeto_ado inp = projeto_blocks x"
    and "gerar_terraform_repositorio_ado inp = repositorio_blocks x"
    and "gerar_terraform_variablegroup_ado inp = variablegroup_blocks x"
  using assms
  by (simp_all add: gerar_terraform_projeto_ado_def gerar_terraform_repositorio_ado_def
      gerar_terraform_variablegroup_ado_def)

lemma gerar_no_entity:
  assumes "select_dados inp = None"
  shows "gerar_terraform_projeto_ado inp = Inr (None, None)"
    and "gerar_terraform_repositorio_ado inp = Inr (None, None)"
    and "gerar_terraform_variablegroup_ado inp = Inr (None, None)"
  using assms
  by (simp_all add: gerar_terraform_projeto_ado_def gerar_terraform_repositorio_ado_def
      gerar_terraform_variablegroup_ado_def)

lemma resource_nonempty:
  "projeto_resource a b c d e f \<noteq> []"
  "projeto_import g a \<noteq> []"
  "repositorio_resource a b c \<noteq> []"
  "repositorio_import g h a \<noteq> []"
  "variablegroup_resource a b c d \<noteq> []"
  "variablegroup_import g h a \<noteq> []"
  by (simp_all add: projeto_resource_def projeto_import_def repositorio_resource_def
      repositorio_import_def variablegroup_resource_def variablegroup_import_def)

lemma projeto_blocks_shape:
  "projeto_blocks x = Inl AttributeError \<or> projeto_blocks x = Inr (None, None) \<or>
   (\<exists>r i. projeto_blocks x = Inr (Some r, Some i) \<and> r \<noteq> [] \<and> i \<noteq> [])"
proof (cases x)
  case (JObj kvs)
  show ?thesis
  proof (cases "projeto_lookups_ok kvs")
    case True
    then show ?thesis
      unfolding JObj by (simp add: projeto_blocks_ok resource_nonempty)
  next
    case False
    then show ?thesis unfolding JObj by (simp add: projeto_blocks_raise)
  qed
qed (simp_all add: blocks_not_dict)

lemma repositorio_blocks_shape:
  "repositorio_blocks x = Inl AttributeError \<or> repositorio_blocks x = Inr (None, None) \<or>
   (\<exists>r i. repositorio_blocks x = Inr (Some r, Some i) \<and> r \<noteq> [] \<and> i \<noteq> [])"
proof (cases x)
  case (JObj kvs)
  show ?thesis
  proof (cases "repositorio_lookups_ok kvs")
    case True
    then show ?thesis
      unfolding JObj by (simp add: repositorio_blocks_ok resource_nonempty)
  next
    case False
    then show ?thesis unfolding JObj by (simp add: repositorio_blocks_raise)
  qed
qed (simp_all add: blocks_not_dict)

lemma variablegroup_blocks_shape:
  "variablegroup_blocks x = Inl AttributeError \<or> variablegroup_blocks x = Inr (None, None) \<or>
   (\<exists>r i. variablegroup_blocks x = Inr (Some r, Some i) \<and> r \<noteq> [] \<and> i \<noteq> [])"
proof (cases x)
  case (JObj kvs)
  show ?thesis
  proof (cases "variablegroup_lookups_ok kvs")
    case True
    then show ?thesis
      unfolding JObj by (simp add: variablegroup_blocks_ok resource_nonempty)
  next
    case False
    then show ?thesis unfolding JObj by (simp add: variablegroup_blocks_raise)
  qed
qed (simp_all add: blocks_not_dict)

lemma gerar_never_partial:
  "gerar_terraform_projeto_ado inp \<noteq> Inr (Some r, None)"
  "gerar_terraform_projeto_ado inp \<noteq> Inr (None, Some i)"
  "gerar_terraform_repositorio_ado inp \<noteq> Inr (Some r, None)"
  "gerar_terraform_repositorio_ado inp \<noteq> Inr (None, Some i)"
  "gerar_terraform_variablegroup_ado inp \<noteq> Inr (Some r, None)"
  "gerar_terraform_variablegroup_ado inp \<noteq> Inr (None, Some i)"
proof -
  show "gerar_terraform_projeto_ado inp \<noteq> Inr (Some r, None)"
    "gerar_terraform_projeto_ado inp \<noteq> Inr (None, Some i)"
    using projeto_blocks_shape [of "the (select_dados inp)"]
    by (cases "select_dados inp"; auto simp: gerar_select gerar_no_entity)+
  show "gerar_terraform_repositorio_ado inp \<noteq> Inr (Some r, None)"
    "gerar_terraform_repositorio_ado inp \<noteq> Inr (None, Some i)"
    using repositorio_blocks_shape [of "the (select_dados inp)"]
    by (cases "select_dados inp"; auto simp: gerar_select gerar_no_entity)+
  show "gerar_terraform_variablegroup_ado inp \<noteq> Inr (Some r, None)"
    "gerar_terraform_variablegroup_ado inp \<noteq> Inr (None, Some i)"
    using variablegroup_blocks_shape [of "the (select_dados inp)"]
    by (cases "select_dados inp"; auto simp: gerar_select gerar_no_entity)+
qed

lemma required_lookups_ok:
  "py_all (repositorio_required kvs) \<Longrightarrow> repositorio_lookups_ok kvs"
  "py_all (variablegroup_required kvs) \<Longrightarrow> variablegroup_lookups_ok kvs"
  by (auto simp: py_all_def repositorio_required_def variablegroup_required_def
      repositorio_lookups_ok_def variablegroup_lookups_ok_def opt_dict_def sub_def field_def
      field_or_def split: option.splits json.splits)

lemma falsy_not_truthy: "v \<in> set falsy_values \<Longrightarrow> \<not> truthy v"
  by (auto simp: falsy_values_def)

lemma falsy_not_py_all: "\<exists>v \<in> set vs. v \<in> set falsy_values \<Longrightarrow> \<not> py_all vs"
  by (auto simp: py_all_def list_all_iff dest: falsy_not_truthy)

text \<open>
  Claim C9. When the input decodes to a non-empty array whose first element is not an
  object, each of the three generators raises \<^verbatim>\<open>AttributeError\<close> at its first field
  lookup, which stands after the \<^verbatim>\<open>try\<close> block; it does not return \<^verbatim>\<open>(None, None)\<close>.
  An empty array, and an input that \<^verbatim>\<open>json.loads\<close> rejects, do return \<^verbatim>\<open>(None, None)\<close>.
\<close>

theorem non_object_element_raises:
  "(\<not> is_dict x \<longrightarrow>
      gerar_terraform_projeto_ado (Loaded (JArr (x # xs))) = Inl AttributeError \<and>
      gerar_terraform_repositorio_ado (Loaded (JArr (x # xs))) = Inl AttributeError \<and>
      gerar_terraform_variablegroup_ado (Loaded (JArr (x # xs))) = Inl AttributeError) \<and>
   gerar_terraform_projeto_ado (Loaded (JArr [])) = Inr (None, None) \<and>
   gerar_terraform_repositorio_ado (Loaded (JArr [])) = Inr (None, None) \<and>
   gerar_terraform_variablegroup_ado (Loaded (JArr [])) = Inr (None, None) \<and>
   gerar_terraform_projeto_ado LoadsJSONDecodeError = Inr (None, None) \<and>
   gerar_terraform_repositorio_ado LoadsJSONDecodeError = Inr (None, None) \<and>
   gerar_terraform_variablegroup_ado LoadsJSONDecodeError = Inr (None, None) \<and>
   gerar_terraform_projeto_ado LoadsException = Inr (None, None) \<and>
   gerar_terraform_repositorio_ado LoadsException = Inr (None, None) \<and>
   gerar_terraform_variablegroup_ado LoadsException = Inr (None, None)"
  by (simp add: blocks_not_dict gerar_no_entity)

theorem non_object_element_raises_witness:
  "gerar_terraform_projeto_ado (Loaded (JArr [JInt 5])) = Inl AttributeError \<and>
   gerar_terraform_repositorio_ado (Loaded (JArr [JInt 5])) = Inl AttributeError \<and>
   gerar_terraform_variablegroup_ado (Loaded (JArr [JInt 5])) = Inl AttributeError \<and>
   gerar_terraform_projeto_ado (Loaded (JArr [JInt 5])) \<noteq> Inr (None, None)"
  using non_object_element_raises [of "JInt 5" "[]"] by simp

text \<open>
  A name that is truthy and no string passes the check of the required fields and then
  has no \<^verbatim>\<open>lower\<close> method.
\<close>

lemma non_string_name_raises:
  "py_all [JStr ''1'', JInt 5] \<and>
   gerar_terraform_projeto_ado (Loaded (JObj [(''id'', JStr ''1''), (''name'', JInt 5)])) =
     Inl AttributeError"
  by (simp add: py_all_def projeto_blocks_def)

text \<open>
  The policy on the entities the generators are written for. Take an entity whose
  \<^verbatim>\<open>capabilities\<close>, \<^verbatim>\<open>processTemplate\<close> and \<^verbatim>\<open>versioncontrol\<close> (project), \<^verbatim>\<open>project\<close>
  (repository) or \<^verbatim>\<open>projectReference\<close> (variable group) are each missing or an object.
  If a required field is missing or falsy, the generator returns \<^verbatim>\<open>(None, None)\<close>. If
  all required fields are truthy, the names are strings and, for a variable group,
  \<^verbatim>\<open>variables\<close> is missing or an object whose values are objects, both blocks are
  returned, and neither is empty. On every input whatsoever, a pair that is returned is
  never half present.
\<close>

lemma missing_field_policy:
  "(select_dados inp = Some (JObj kvs) \<longrightarrow>
      (projeto_lookups_ok kvs \<and> \<not> py_all (projeto_required kvs) \<longrightarrow>
         gerar_terraform_projeto_ado inp = Inr (None, None)) \<and>
      (repositorio_lookups_ok kvs \<and> \<not> py_all (repositorio_required kvs) \<longrightarrow>
         gerar_terraform_repositorio_ado inp = Inr (None, None)) \<and>
      (variablegroup_lookups_ok kvs \<and> \<not> py_all (variablegroup_required kvs) \<longrightarrow>
         gerar_terraform_variablegroup_ado inp = Inr (None, None)) \<and>
      (projeto_lookups_ok kvs \<and> py_all (projeto_required kvs) \<and>
       is_name (field kvs ''name'') \<longrightarrow>
         (\<exists>r i. gerar_terraform_projeto_ado inp = Inr (Some r, Some i) \<and> r \<noteq> [] \<and> i \<noteq> [])) \<and>
      (py_all (repositorio_required kvs) \<and> is_name (field kvs ''name'') \<and>
       is_name (field (sub kvs ''project'') ''name'') \<longrightarrow>
         (\<exists>r i. gerar_terraform_repositorio_ado inp = Inr (Some r, Some i) \<and> r \<noteq> [] \<and> i \<noteq> [])) \<and>
      (py_all (variablegroup_required kvs) \<and> is_name (field kvs ''name'') \<and>
       is_name (field (sub kvs ''projectReference'') ''name'') \<and> variables_ok kvs \<longrightarrow>
         (\<exists>r i. gerar_terraform_variablegroup_ado inp = Inr (Some r, Some i) \<and>
            r \<noteq> [] \<and> i \<noteq> []))) \<and>
   gerar_terraform_projeto_ado inp \<noteq> Inr (Some r, None) \<and>
   gerar_terraform_projeto_ado inp \<noteq> Inr (None, Some i) \<and>
   gerar_terraform_repositorio_ado inp \<noteq> Inr (Some r, None) \<and>
   gerar_terraform_repositorio_ado inp \<noteq> Inr (None, Some i) \<and>
   gerar_terraform_variablegroup_ado inp \<noteq> Inr (Some r, None) \<and>
   gerar_terraform_variablegroup_ado inp \<noteq> Inr (None, Some i)"
proof (intro conjI impI)
  assume s: "select_dados inp = Some (JObj kvs)"
  {
    assume "projeto_lookups_ok kvs \<and> \<not> py_all (projeto_required kvs)"
    then show "gerar_terraform_projeto_ado inp = Inr (None, None)"
      by (simp add: gerar_select [OF s] projeto_blocks_ok)
  next
    assume "repositorio_lookups_ok kvs \<and> \<not> py_all (repositorio_required kvs)"
    then show "gerar_terraform_repositorio_ado inp = Inr (None, None)"
      by (simp add: gerar_select [OF s] repositorio_blocks_ok)
  next
    assume "variablegroup_lookups_ok kvs \<and> \<not> py_all (variablegroup_required kvs)"
    then show "gerar_terraform_variablegroup_ado inp = Inr (None, None)"
      by (simp add: gerar_select [OF s] variablegroup_blocks_ok)
  next
    assume "projeto_lookups_ok kvs \<and> py_all (projeto_required kvs) \<and>
      is_name (field kvs ''name'')"
    then show "\<exists>r i. gerar_terraform_projeto_ado inp = Inr (Some r, Some i) \<and> r \<noteq> [] \<and> i \<noteq> []"
      by (simp add: gerar_select [OF s] projeto_blocks_ok resource_nonempty)
  next
    assume a: "py_all (repositorio_required kvs) \<and> is_name (field kvs ''name'') \<and>
      is_name (field (sub kvs ''project'') ''name'')"
    then have "repositorio_lookups_ok kvs" by (simp add: required_lookups_ok)
    with a show "\<exists>r i. gerar_terraform_repositorio_ado inp = Inr (Some r, Some i) \<and>
        r \<noteq> [] \<and> i \<noteq> []"
      by (simp add: gerar_select [OF s] repositorio_blocks_ok resource_nonempty)
  next
    assume a: "py_all (variablegroup_required kvs) \<and> is_name (field kvs ''name'') \<and>
      is_name (field (sub kvs ''projectReference'') ''name'') \<and> variables_ok kvs"
    then have "variablegroup_lookups_ok kvs" by (simp add: required_lookups_ok)
    with a show "\<exists>r i. gerar_terraform_variablegroup_ado inp = Inr (Some r, Some i) \<and>
        r \<noteq> [] \<and> i \<noteq> []"
      by (simp add: gerar_select [OF s] variablegroup_blocks_ok resource_nonempty)
  }
qed (rule gerar_never_partial)+


lemmas entity_simps = projeto_lookups_ok_def repositorio_lookups_ok_def
  variablegroup_lookups_ok_def projeto_required_def repositorio_required_def
  variablegroup_required_def opt_dict_def sub_def field_def field_or_def py_all_def
  variables_ok_def flags_ok_def flag_ok_def

lemma missing_field_policy_instances:
  "gerar_terraform_projeto_ado (Loaded (JObj [(''id'', JStr ''1'')])) = Inr (None, None) \<and>
   gerar_terraform_repositorio_ado (Loaded (JArr [JObj [(''id'', JStr ''1'')]])) =
     Inr (None, None) \<and>
   gerar_terraform_variablegroup_ado (Loaded (JObj [(''id'', JStr ''1'')])) = Inr (None, None) \<and>
   (\<exists>r i. gerar_terraform_projeto_ado
       (Loaded (JObj [(''id'', JStr ''1''), (''name'', JStr ''My Proj!'')])) =
       Inr (Some r, Some i) \<and> r \<noteq> [] \<and> i \<noteq> [])"
proof -
  have 1: "gerar_terraform_projeto_ado (Loaded (JObj [(''id'', JStr ''1'')])) = Inr (None, None)"
    "gerar_terraform_variablegroup_ado (Loaded (JObj [(''id'', JStr ''1'')])) = Inr (None, None)"
    using missing_field_policy [of "Loaded (JObj [(''id'', JStr ''1'')])" "[(''id'', JStr ''1'')]"]
    by (simp_all add: entity_simps)
  have 2: "gerar_terraform_repositorio_ado (Loaded (JArr [JObj [(''id'', JStr ''1'')]])) =
      Inr (None, None)"
    using missing_field_policy [of "Loaded (JArr [JObj [(''id'', JStr ''1'')]])"
        "[(''id'', JStr ''1'')]"]
    by (simp add: entity_simps)
  have 3: "\<exists>r i. gerar_terraform_projeto_ado
       (Loaded (JObj [(''id'', JStr ''1''), (''name'', JStr ''My Proj!'')])) =
       Inr (Some r, Some i) \<and> r \<noteq> [] \<and> i \<noteq> []"
    using missing_field_policy [of "Loaded (JObj [(''id'', JStr ''1''), (''name'', JStr ''My Proj!'')])"
        "[(''id'', JStr ''1''), (''name'', JStr ''My Proj!'')]"]
    by (simp add: entity_simps)
  from 1 2 3 show ?thesis by blast
qed

lemma falsy_values_iff: "v \<in> set falsy_values \<longleftrightarrow> \<not> truthy v"
  by (cases v) (auto simp: falsy_values_def)

text \<open>
  The check of the required fields takes every falsy value for a missing one. On an
  entity whose nested fields are missing or objects, a required field that holds any
  falsy value makes the generator return \<^verbatim>\<open>(None, None)\<close> although the field is present.
  The falsy values are \<^verbatim>\<open>null\<close>, \<^verbatim>\<open>false\<close>, \<^verbatim>\<open>0\<close>, the empty string, the empty array and
  the empty object; the number 0 and \<^verbatim>\<open>false\<close> are among them.
\<close>

lemma falsy_required_field_aborts:
  "(select_dados inp = Some (JObj kvs) \<longrightarrow>
      (projeto_lookups_ok kvs \<and> (\<exists>v \<in> set (projeto_required kvs). v \<in> set falsy_values) \<longrightarrow>
         gerar_terraform_projeto_ado inp = Inr (None, None)) \<and>
      (repositorio_lookups_ok kvs \<and>
       (\<exists>v \<in> set (repositorio_required kvs). v \<in> set falsy_values) \<longrightarrow>
         gerar_terraform_repositorio_ado inp = Inr (None, None)) \<and>
      (variablegroup_lookups_ok kvs \<and>
       (\<exists>v \<in> set (variablegroup_required kvs). v \<in> set falsy_values) \<longrightarrow>
         gerar_terraform_variablegroup_ado inp = Inr (None, None))) \<and>
   JInt 0 \<in> set falsy_values \<and> JBool False \<in> set falsy_values \<and>
   (v \<in> set falsy_values \<longleftrightarrow> \<not> truthy v)"
proof (intro conjI impI)
  assume s: "select_dados inp = Some (JObj kvs)"
  {
    assume a: "projeto_lookups_ok kvs \<and> (\<exists>v \<in> set (projeto_required kvs). v \<in> set falsy_values)"
    then have "\<not> py_all (projeto_required kvs)" by (simp add: falsy_not_py_all)
    with a show "gerar_terraform_projeto_ado inp = Inr (None, None)"
      by (simp add: gerar_select [OF s] projeto_blocks_ok)
  next
    assume a: "repositorio_lookups_ok kvs \<and>
       (\<exists>v \<in> set (repositorio_required kvs). v \<in> set falsy_values)"
    then have "\<not> py_all (repositorio_required kvs)" by (simp add: falsy_not_py_all)
    with a show "gerar_terraform_repositorio_ado inp = Inr (None, None)"
      by (simp add: gerar_select [OF s] repositorio_blocks_ok)
  next
    assume a: "variablegroup_lookups_ok kvs \<and>
       (\<exists>v \<in> set (variablegroup_required kvs). v \<in> set falsy_values)"
    then have "\<not> py_all (variablegroup_required kvs)" by (simp add: falsy_not_py_all)
    with a show "gerar_terraform_variablegroup_ado inp = Inr (None, None)"
      by (simp add: gerar_select [OF s] variablegroup_blocks_ok)
  }
next
  show "JInt 0 \<in> set falsy_values" "JBool False \<in> set falsy_values"
    by (simp_all add: falsy_values_def)
next
  show "v \<in> set falsy_values \<longleftrightarrow> \<not> truthy v" by (rule falsy_values_iff)
qed

lemma falsy_required_field_aborts_instances:
  "gerar_terraform_variablegroup_ado
     (Loaded (JObj [(''id'', JInt 0), (''name'', JStr ''g''),
        (''projectReference'', JObj [(''id'', JStr ''p''), (''name'', JStr ''P'')])])) =
     Inr (None, None) \<and>
   gerar_terraform_projeto_ado (Loaded (JObj [(''id'', JBool False), (''name'', JStr ''g'')])) =
     Inr (None, None)"
proof -
  have 1: "gerar_terraform_variablegroup_ado
     (Loaded (JObj [(''id'', JInt 0), (''name'', JStr ''g''),
        (''projectReference'', JObj [(''id'', JStr ''p''), (''name'', JStr ''P'')])])) =
     Inr (None, None)"
    using falsy_required_field_aborts [of
        "Loaded (JObj [(''id'', JInt 0), (''name'', JStr ''g''),
           (''projectReference'', JObj [(''id'', JStr ''p''), (''name'', JStr ''P'')])])"
        "[(''id'', JInt 0), (''name'', JStr ''g''),
           (''projectReference'', JObj [(''id'', JStr ''p''), (''name'', JStr ''P'')])]" JNull]
    by (simp add: entity_simps falsy_values_def)
  have 2: "gerar_terraform_projeto_ado (Loaded (JObj [(''id'', JBool False), (''name'', JStr ''g'')])) =
     Inr (None, None)"
    using falsy_required_field_aborts [of
        "Loaded (JObj [(''id'', JBool False), (''name'', JStr ''g'')])"
        "[(''id'', JBool False), (''name'', JStr ''g'')]" JNull]
    by (simp add: entity_simps falsy_values_def)
  from 1 2 show ?thesis by blast
qed


text \<open>
  Claim C5 (the code departs from it). The project entity with id \<^verbatim>\<open>"1"\<close>, name \<^verbatim>\<open>"P"\<close>
  and \<^verbatim>\<open>"capabilities": null\<close> has both required fields, and the entity with name
  \<^verbatim>\<open>"P"\<close> and \<^verbatim>\<open>"capabilities": null\<close> lacks its id; the claim, like the docstring of the
  generator, has both blocks for the first and \<^verbatim>\<open>(None, None)\<close> for the second. The
  generator returns neither: \<^verbatim>\<open>dados_projeto.get("capabilities", {})\<close> is \<^verbatim>\<open>None\<close> for an
  explicit null, and \<^verbatim>\<open>capabilities.get\<close> raises \<^verbatim>\<open>AttributeError\<close> before the check.
  Without the \<^verbatim>\<open>capabilities\<close> key the same two entities give both blocks and
  \<^verbatim>\<open>(None, None)\<close>.
\<close>

theorem null_capabilities_raises:
  "gerar_terraform_projeto_ado
     (Loaded (JObj [(''id'', JStr ''1''), (''name'', JStr ''P''), (''capabilities'', JNull)])) =
     Inl AttributeError \<and>
   gerar_terraform_projeto_ado
     (Loaded (JObj [(''name'', JStr ''P''), (''capabilities'', JNull)])) =
     Inl AttributeError \<and>
   gerar_terraform_projeto_ado (Loaded (JObj [(''id'', JStr ''1''), (''name'', JStr ''P'')])) =
     Inr (Some (projeto_resource ''p'' ''P'' [dq, dq] ''private'' ''Git'' ''Agile''),
          Some (projeto_import ''1'' ''p'')) \<and>
   gerar_terraform_projeto_ado (Loaded (JObj [(''name'', JStr ''P'')])) = Inr (None, None)"
proof (intro conjI)
  show "gerar_terraform_projeto_ado
     (Loaded (JObj [(''id'', JStr ''1''), (''name'', JStr ''P''), (''capabilities'', JNull)])) =
     Inl AttributeError"
    by (simp add: projeto_blocks_raise entity_simps)
  show "gerar_terraform_projeto_ado
     (Loaded (JObj [(''name'', JStr ''P''), (''capabilities'', JNull)])) =
     Inl AttributeError"
    by (simp add: projeto_blocks_raise entity_simps)
  have s: "sanitize ''P'' ''unnamed_project'' = ''p''" by (simp add: eval_simps)
  have l: "projeto_lookups_ok [(''id'', JStr ''1''), (''name'', JStr ''P'')]"
    by (simp add: entity_simps)
  show "gerar_terraform_projeto_ado (Loaded (JObj [(''id'', JStr ''1''), (''name'', JStr ''P'')])) =
     Inr (Some (projeto_resource ''p'' ''P'' [dq, dq] ''private'' ''Git'' ''Agile''),
          Some (projeto_import ''1'' ''p''))"
    by (simp add: projeto_blocks_ok [OF l]) (simp add: entity_simps s json_dumps_str_def)
  have l': "projeto_lookups_ok [(''name'', JStr ''P'')]" by (simp add: entity_simps)
  show "gerar_terraform_projeto_ado (Loaded (JObj [(''name'', JStr ''P'')])) = Inr (None, None)"
    by (simp add: projeto_blocks_ok [OF l']) (simp add: entity_simps)
qed

text \<open>
  Claim C10 (the code departs from it). The variable group with id \<^verbatim>\<open>0\<close>, name
  \<^verbatim>\<open>"g"\<close> and \<^verbatim>\<open>"projectReference": null\<close> has a required field that is present and
  falsy; the claim, like the docstring of the generator, has \<^verbatim>\<open>(None, None)\<close> for it. The
  generator raises \<^verbatim>\<open>AttributeError\<close>: \<^verbatim>\<open>dados_vg.get("projectReference", {})\<close> is
  \<^verbatim>\<open>None\<close> for an explicit null, and \<^verbatim>\<open>.get("id")\<close> on it fails before the check. With
  the key missing, or holding an object, the same entity gives \<^verbatim>\<open>(None, None)\<close>.
\<close>

theorem null_project_reference_raises:
  "gerar_terraform_variablegroup_ado
     (Loaded (JObj [(''id'', JInt 0), (''name'', JStr ''g''), (''projectReference'', JNull)])) =
     Inl AttributeError \<and>
   gerar_terraform_variablegroup_ado (Loaded (JObj [(''id'', JInt 0), (''name'', JStr ''g'')])) =
     Inr (None, None) \<and>
   gerar_terraform_variablegroup_ado
     (Loaded (JObj [(''id'', JInt 0), (''name'', JStr ''g''),
        (''projectReference'', JObj [(''id'', JStr ''p''), (''name'', JStr ''P'')])])) =
     Inr (None, None)"
proof (intro conjI)
  show "gerar_terraform_variablegroup_ado
     (Loaded (JObj [(''id'', JInt 0), (''name'', JStr ''g''), (''projectReference'', JNull)])) =
     Inl AttributeError"
    by (simp add: variablegroup_blocks_raise entity_simps)
  have l: "variablegroup_lookups_ok [(''id'', JInt 0), (''name'', JStr ''g'')]"
    by (simp add: entity_simps)
  show "gerar_terraform_variablegroup_ado (Loaded (JObj [(''id'', JInt 0), (''name'', JStr ''g'')])) =
     Inr (None, None)"
    by (simp add: variablegroup_blocks_ok [OF l]) (simp add: entity_simps)
  have l': "variablegroup_lookups_ok [(''id'', JInt 0), (''name'', JStr ''g''),
        (''projectReference'', JObj [(''id'', JStr ''p''), (''name'', JStr ''P'')])]"
    by (simp add: entity_simps)
  show "gerar_terraform_variablegroup_ado
     (Loaded (JObj [(''id'', JInt 0), (''name'', JStr ''g''),
        (''projectReference'', JObj [(''id'', JStr ''p''), (''name'', JStr ''P'')])])) =
     Inr (None, None)"
    by (simp add: variablegroup_blocks_ok [OF l']) (simp add: entity_simps)
qed

lemma projeto_blocks_returns:
  assumes "projeto_blocks (JObj kvs) = Inr (Some r, Some i)"
  shows "projeto_lookups_ok kvs \<and> py_all (projeto_required kvs) \<and> is_name (field kvs ''name'')"
proof -
  have l: "projeto_lookups_ok kvs"
  proof (rule ccontr)
    assume "\<not> projeto_lookups_ok kvs"
    then have "projeto_blocks (JObj kvs) = Inl AttributeError" by (rule projeto_blocks_raise)
    with assms show False by simp
  qed
  from assms show ?thesis
    unfolding projeto_blocks_ok [OF l] using l by (simp split: if_splits)
qed

text \<open>
  Claim C6. The project entity with id \<^verbatim>\<open>"1"\<close>, name \<^verbatim>\<open>"My Proj!"\<close> and visibility
  \<^verbatim>\<open>"private"\<close> gives a resource block labelled \<^verbatim>\<open>my_proj\<close> with
  \<^verbatim>\<open>work_item_template = "Agile"\<close> and an import block with id \<^verbatim>\<open>"1"\<close> for
  \<^verbatim>\<open>azuredevops_project.my_proj\<close>. Whenever blocks are returned, the description line
  holds \<^verbatim>\<open>json.dumps\<close> of the description (of the empty string when there is none),
  which puts a string between double quotes and escapes the quotes, backslashes and
  newlines in it.
\<close>

theorem projeto_end_to_end:
  \<open>gerar_terraform_projeto_ado
     (Loaded (JObj [(''id'', JStr ''1''), (''name'', JStr ''My Proj!''),
                    (''visibility'', JStr ''private'')])) =
     Inr (Some ([nl] @ ''resource "azuredevops_project" "my_proj" {'' @ [nl] @
                ''  name               = "My Proj!"'' @ [nl] @
                ''  description        = ""'' @ [nl] @
                ''  visibility         = "private"'' @ [nl] @
                ''  version_control    = "Git"'' @ [nl] @
                ''  work_item_template = "Agile"'' @ [nl] @
                ''}'' @ [nl]),
          Some ([nl] @ ''import {'' @ [nl] @
                ''  id = "1"'' @ [nl] @
                ''  to = azuredevops_project.my_proj'' @ [nl] @
                ''}'' @ [nl])) \<and>
   (gerar_terraform_projeto_ado (Loaded (JObj kvs)) = Inr (Some r, Some i) \<longrightarrow>
      r = [nl] @ ''resource "azuredevops_project" "'' @
            sanitize (the_str (field kvs ''name'')) ''unnamed_project'' @ ''" {'' @ [nl] @
          ''  name               = "'' @ the_str (field kvs ''name'') @ ''"'' @ [nl] @
          ''  description        = '' @ json_dumps (field_or kvs ''description'' (JStr [])) @ [nl] @
          ''  visibility         = "'' @ py_str (field_or kvs ''visibility'' (JStr ''private'')) @
            ''"'' @ [nl] @
          ''  version_control    = "'' @
            py_str (field_or (sub (sub kvs ''capabilities'') ''versioncontrol'')
                      ''sourceControlType'' (JStr ''Git'')) @ ''"'' @ [nl] @
          ''  work_item_template = "'' @
            py_str (field_or (sub (sub kvs ''capabilities'') ''processTemplate'')
                      ''templateName'' (JStr ''Agile'')) @ ''"'' @ [nl] @
          ''}'' @ [nl] \<and>
      i = [nl] @ ''import {'' @ [nl] @
          ''  id = "'' @ py_str (field kvs ''id'') @ ''"'' @ [nl] @
          ''  to = azuredevops_project.'' @
            sanitize (the_str (field kvs ''name'')) ''unnamed_project'' @ [nl] @
          ''}'' @ [nl]) \<and>
   json_dumps (JStr s) = [dq] @ concat (map json_escape_char s) @ [dq] \<and>
   json_escape_char dq = [bs, dq] \<and> json_escape_char bs = [bs, bs] \<and>
   json_escape_char nl = [bs, CHR ''n'']\<close>
proof (intro conjI impI)
  have l: "projeto_lookups_ok [(''id'', JStr ''1''), (''name'', JStr ''My Proj!''),
      (''visibility'', JStr ''private'')]"
    by (simp add: entity_simps)
  show \<open>gerar_terraform_projeto_ado
     (Loaded (JObj [(''id'', JStr ''1''), (''name'', JStr ''My Proj!''),
                    (''visibility'', JStr ''private'')])) =
     Inr (Some ([nl] @ ''resource "azuredevops_project" "my_proj" {'' @ [nl] @
                ''  name               = "My Proj!"'' @ [nl] @
                ''  description        = ""'' @ [nl] @
                ''  visibility         = "private"'' @ [nl] @
                ''  version_control    = "Git"'' @ [nl] @
                ''  work_item_template = "Agile"'' @ [nl] @
                ''}'' @ [nl]),
          Some ([nl] @ ''import {'' @ [nl] @
                ''  id = "1"'' @ [nl] @
                ''  to = azuredevops_project.my_proj'' @ [nl] @
                ''}'' @ [nl]))\<close>
    by (simp add: projeto_blocks_ok [OF l])
      (simp add: entity_simps projeto_resource_def projeto_import_def json_dumps_str_def
        sanitize_my_proj)
next
  assume a: "gerar_terraform_projeto_ado (Loaded (JObj kvs)) = Inr (Some r, Some i)"
  then have b: "projeto_blocks (JObj kvs) = Inr (Some r, Some i)" by simp
  then have c: "projeto_lookups_ok kvs \<and> py_all (projeto_required kvs) \<and>
      is_name (field kvs ''name'')"
    by (rule projeto_blocks_returns)
  then have l: "projeto_lookups_ok kvs" by blast
  from b c show \<open>r = [nl] @ ''resource "azuredevops_project" "'' @
            sanitize (the_str (field kvs ''name'')) ''unnamed_project'' @ ''" {'' @ [nl] @
          ''  name               = "'' @ the_str (field kvs ''name'') @ ''"'' @ [nl] @
          ''  description        = '' @ json_dumps (field_or kvs ''description'' (JStr [])) @ [nl] @
          ''  visibility         = "'' @ py_str (field_or kvs ''visibility'' (JStr ''private'')) @
            ''"'' @ [nl] @
          ''  version_control    = "'' @
            py_str (field_or (sub (sub kvs ''capabilities'') ''versioncontrol'')
                      ''sourceControlType'' (JStr ''Git'')) @ ''"'' @ [nl] @
          ''  work_item_template = "'' @
            py_str (field_or (sub (sub kvs ''capabilities'') ''processTemplate'')
                      ''templateName'' (JStr ''Agile'')) @ ''"'' @ [nl] @
          ''}'' @ [nl]\<close>
    unfolding projeto_blocks_ok [OF l] by (simp add: projeto_resource_def)
  from b c show \<open>i = [nl] @ ''import {'' @ [nl] @
          ''  id = "'' @ py_str (field kvs ''id'') @ ''"'' @ [nl] @
          ''  to = azuredevops_project.'' @
            sanitize (the_str (field kvs ''name'')) ''unnamed_project'' @ [nl] @
          ''}'' @ [nl]\<close>
    unfolding projeto_blocks_ok [OF l] by (simp add: projeto_import_def)
next
  show "json_dumps (JStr s) = [dq] @ concat (map json_escape_char s) @ [dq]"
    by (simp add: json_dumps_str_def)
next
  show "json_escape_char dq = [bs, dq]" "json_escape_char bs = [bs, bs]"
    "json_escape_char nl = [bs, CHR ''n'']"
    by (simp_all add: json_escape_char_def)
qed


theorem projeto_end_to_end_witness:
  \<open>gerar_terraform_projeto_ado
     (Loaded (JArr [JObj [(''id'', JInt 42), (''name'', JStr ''Ops''),
                          (''description'', JStr (''say "hi"'' @ [nl] @ ''bye''))]])) =
     Inr (Some ([nl] @ ''resource "azuredevops_project" "ops" {'' @ [nl] @
                ''  name               = "Ops"'' @ [nl] @
                ''  description        = "say '' @ [bs] @ ''"hi'' @ [bs] @ ''"'' @ [bs] @
                  ''nbye"'' @ [nl] @
                ''  visibility         = "private"'' @ [nl] @
                ''  version_control    = "Git"'' @ [nl] @
                ''  work_item_template = "Agile"'' @ [nl] @
                ''}'' @ [nl]),
          Some ([nl] @ ''import {'' @ [nl] @
                ''  id = "42"'' @ [nl] @
                ''  to = azuredevops_project.ops'' @ [nl] @
                ''}'' @ [nl]))\<close>
proof -
  let ?kvs = \<open>[(''id'', JInt 42), (''name'', JStr ''Ops''),
                (''description'', JStr (''say "hi"'' @ [nl] @ ''bye''))]\<close>
  have l: "projeto_lookups_ok ?kvs" by (simp add: entity_simps)
  have "py_all (projeto_required ?kvs)" "is_name (field ?kvs ''name'')"
    by (simp_all add: entity_simps)
  with l obtain r i where ri: "gerar_terraform_projeto_ado (Loaded (JObj ?kvs)) = Inr (Some r, Some i)"
    by (simp add: projeto_blocks_ok)
  have s: "sanitize ''Ops'' ''unnamed_project'' = ''ops''" by (simp add: eval_simps)
  have d: \<open>json_dumps (JStr (''say "hi"'' @ [nl] @ ''bye'')) =
      ''"say '' @ [bs] @ ''"hi'' @ [bs] @ ''"'' @ [bs] @ ''nbye"''\<close>
    by (simp add: json_dumps_str_def json_escape_char_def)
  have n: "py_str (JInt 42) = ''42''" by (simp add: str_int_def digits10.simps)
  have f: "field ?kvs ''name'' = JStr ''Ops''" "field ?kvs ''id'' = JInt 42"
    "field_or ?kvs ''description'' (JStr []) = JStr (''say \"hi\"'' @ [nl] @ ''bye'')"
    "field_or ?kvs ''visibility'' (JStr ''private'') = JStr ''private''"
    "sub ?kvs ''capabilities'' = []"
    by (simp_all add: entity_simps)
  note g = projeto_end_to_end [of ?kvs r i "[]", THEN conjunct2, THEN conjunct1, rule_format,
      OF ri]
  from ri have "gerar_terraform_projeto_ado (Loaded (JArr [JObj ?kvs])) = Inr (Some r, Some i)"
    by simp
  with g show ?thesis
    by (simp only: f s d n the_str.simps py_str.simps)
      (simp add: entity_simps str_int_def digits10.simps)
qed

lemma sanitize_core:
  "sanitize ''Core Repo'' f = ''core_repo''"
  "sanitize ''Core Proj'' f = ''core_proj''"
  by (simp_all add: eval_simps)

lemma repositorio_fixed_lines:
  \<open>code_lines repositorio_fixed =
     [[],
      ''  initialization {'',
      ''    init_type = "Clean"'',
      ''  }'',
      [],
      ''  lifecycle {'',
      ''    ignore_changes = ['',
      ''      initialization,'',
      ''    ]'',
      ''    prevent_destroy = true'',
      ''  }'',
      ''}'',
      []]\<close>
  by (simp add: code_lines_def split_lines_def is_comment_line_def repositorio_fixed_def)


text \<open>
  Claim C7. For a repository entity whose required fields are all present (the two ids
  truthy, the two names non-empty strings), the resource block is the header with the two
  sanitized names and the raw name, followed by the fixed text whose lines, comments
  aside, are the \<^verbatim>\<open>initialization\<close> block with \<^verbatim>\<open>init_type = "Clean"\<close> and the
  \<^verbatim>\<open>lifecycle\<close> block that ignores changes to \<^verbatim>\<open>initialization\<close> and sets
  \<^verbatim>\<open>prevent_destroy = true\<close>; the import block has the id
  \<^verbatim>\<open>"<project id>/<repo id>"\<close>. For name \<^verbatim>\<open>"Core Repo"\<close> and project id \<^verbatim>\<open>"9"\<close>, name
  \<^verbatim>\<open>"Core Proj"\<close>, the labels are \<^verbatim>\<open>core_repo\<close> and \<^verbatim>\<open>core_proj\<close> and the import id
  is \<^verbatim>\<open>"9/<repo id>"\<close>, whatever the (truthy) repo id.
\<close>

theorem repositorio_end_to_end:
  \<open>(py_all (repositorio_required kvs) \<and> is_name (field kvs ''name'') \<and>
    is_name (field (sub kvs ''project'') ''name'') \<longrightarrow>
      gerar_terraform_repositorio_ado (Loaded (JObj kvs)) =
        Inr (Some ([nl] @ ''resource "azuredevops_git_repository" "'' @
                     sanitize (the_str (field kvs ''name'')) ''unnamed_repository'' @
                     ''" {'' @ [nl] @
                   ''  project_id = azuredevops_project.'' @
                     sanitize (the_str (field (sub kvs ''project'') ''name''))
                       ''unnamed_project_ref'' @ ''.id'' @ [nl] @
                   ''  name       = "'' @ the_str (field kvs ''name'') @ ''"'' @ [nl] @
                   repositorio_fixed),
             Some ([nl] @ ''import {'' @ [nl] @
                   ''  id = "'' @ py_str (field (sub kvs ''project'') ''id'') @ ''/'' @
                     py_str (field kvs ''id'') @ ''"'' @ [nl] @
                   ''  to = azuredevops_git_repository.'' @
                     sanitize (the_str (field kvs ''name'')) ''unnamed_repository'' @ [nl] @
                   ''}'' @ [nl]))) \<and>
   code_lines repositorio_fixed =
     [[],
      ''  initialization {'',
      ''    init_type = "Clean"'',
      ''  }'',
      [],
      ''  lifecycle {'',
      ''    ignore_changes = ['',
      ''      initialization,'',
      ''    ]'',
      ''    prevent_destroy = true'',
      ''  }'',
      ''}'',
      []] \<and>
   (truthy repo_id \<longrightarrow>
      gerar_terraform_repositorio_ado
        (Loaded (JObj [(''id'', repo_id), (''name'', JStr ''Core Repo''),
           (''project'', JObj [(''id'', JStr ''9''), (''name'', JStr ''Core Proj'')])])) =
        Inr (Some ([nl] @ ''resource "azuredevops_git_repository" "core_repo" {'' @ [nl] @
                   ''  project_id = azuredevops_project.core_proj.id'' @ [nl] @
                   ''  name       = "Core Repo"'' @ [nl] @
                   repositorio_fixed),
             Some ([nl] @ ''import {'' @ [nl] @
                   ''  id = "9/'' @ py_str repo_id @ ''"'' @ [nl] @
                   ''  to = azuredevops_git_repository.core_repo'' @ [nl] @
                   ''}'' @ [nl])))\<close>
proof (intro conjI impI)
  assume a: "py_all (repositorio_required kvs) \<and> is_name (field kvs ''name'') \<and>
    is_name (field (sub kvs ''project'') ''name'')"
  then have l: "repositorio_lookups_ok kvs" by (simp add: required_lookups_ok)
  from a show \<open>gerar_terraform_repositorio_ado (Loaded (JObj kvs)) =
        Inr (Some ([nl] @ ''resource "azuredevops_git_repository" "'' @
                     sanitize (the_str (field kvs ''name'')) ''unnamed_repository'' @
                     ''" {'' @ [nl] @
                   ''  project_id = azuredevops_project.'' @
                     sanitize (the_str (field (sub kvs ''project'') ''name''))
                       ''unnamed_project_ref'' @ ''.id'' @ [nl] @
                   ''  name       = "'' @ the_str (field kvs ''name'') @ ''"'' @ [nl] @
                   repositorio_fixed),
             Some ([nl] @ ''import {'' @ [nl] @
                   ''  id = "'' @ py_str (field (sub kvs ''project'') ''id'') @ ''/'' @
                     py_str (field kvs ''id'') @ ''"'' @ [nl] @
                   ''  to = azuredevops_git_repository.'' @
                     sanitize (the_str (field kvs ''name'')) ''unnamed_repository'' @ [nl] @
                   ''}'' @ [nl]))\<close>
    by (simp add: repositorio_blocks_ok [OF l] repositorio_resource_def repositorio_import_def)
next
  show \<open>code_lines repositorio_fixed =
     [[],
      ''  initialization {'',
      ''    init_type = "Clean"'',
      ''  }'',
      [],
      ''  lifecycle {'',
      ''    ignore_changes = ['',
      ''      initialization,'',
      ''    ]'',
      ''    prevent_destroy = true'',
      ''  }'',
      ''}'',
      []]\<close>
    by (rule repositorio_fixed_lines)
next
  assume t: "truthy repo_id"
  let ?kvs = "[(''id'', repo_id), (''name'', JStr ''Core Repo''),
           (''project'', JObj [(''id'', JStr ''9''), (''name'', JStr ''Core Proj'')])]"
  have l: "repositorio_lookups_ok ?kvs" by (simp add: entity_simps)
  from t show \<open>gerar_terraform_repositorio_ado (Loaded (JObj ?kvs)) =
        Inr (Some ([nl] @ ''resource "azuredevops_git_repository" "core_repo" {'' @ [nl] @
                   ''  project_id = azuredevops_project.core_proj.id'' @ [nl] @
                   ''  name       = "Core Repo"'' @ [nl] @
                   repositorio_fixed),
             Some ([nl] @ ''import {'' @ [nl] @
                   ''  id = "9/'' @ py_str repo_id @ ''"'' @ [nl] @
                   ''  to = azuredevops_git_repository.core_repo'' @ [nl] @
                   ''}'' @ [nl]))\<close>
    by (simp add: repositorio_blocks_ok [OF l])
      (simp add: entity_simps repositorio_resource_def repositorio_import_def sanitize_core)
qed

theorem repositorio_end_to_end_witness:
  \<open>gerar_terraform_repositorio_ado
     (Loaded (JArr [JObj [(''id'', JStr ''r1''), (''name'', JStr ''API--Gateway''),
        (''project'', JObj [(''id'', JInt 12), (''name'', JStr ''Platform Team'')])]])) =
     Inr (Some ([nl] @ ''resource "azuredevops_git_repository" "api_gateway" {'' @ [nl] @
                ''  project_id = azuredevops_project.platform_team.id'' @ [nl] @
                ''  name       = "API--Gateway"'' @ [nl] @
                repositorio_fixed),
          Some ([nl] @ ''import {'' @ [nl] @
                ''  id = "12/r1"'' @ [nl] @
                ''  to = azuredevops_git_repository.api_gateway'' @ [nl] @
                ''}'' @ [nl])) \<and>
   gerar_terraform_repositorio_ado
     (Loaded (JObj [(''id'', JInt 7), (''name'', JStr ''Core Repo''),
        (''project'', JObj [(''id'', JStr ''9''), (''name'', JStr ''Core Proj'')])])) =
     Inr (Some ([nl] @ ''resource "azuredevops_git_repository" "core_repo" {'' @ [nl] @
                ''  project_id = azuredevops_project.core_proj.id'' @ [nl] @
                ''  name       = "Core Repo"'' @ [nl] @
                repositorio_fixed),
          Some ([nl] @ ''import {'' @ [nl] @
                ''  id = "9/7"'' @ [nl] @
                ''  to = azuredevops_git_repository.core_repo'' @ [nl] @
                ''}'' @ [nl]))\<close>
proof -
  let ?kvs = "[(''id'', JStr ''r1''), (''name'', JStr ''API--Gateway''),
        (''project'', JObj [(''id'', JInt 12), (''name'', JStr ''Platform Team'')])]"
  have h: "py_all (repositorio_required ?kvs) \<and> is_name (field ?kvs ''name'') \<and>
      is_name (field (sub ?kvs ''project'') ''name'')"
    by (simp add: entity_simps)
  have f: "field ?kvs ''name'' = JStr ''API--Gateway''" "field ?kvs ''id'' = JStr ''r1''"
    "field (sub ?kvs ''project'') ''name'' = JStr ''Platform Team''"
    "field (sub ?kvs ''project'') ''id'' = JInt 12"
    by (simp_all add: entity_simps)
  have s: "sanitize ''API--Gateway'' ''unnamed_repository'' = ''api_gateway''"
    "sanitize ''Platform Team'' ''unnamed_project_ref'' = ''platform_team''"
    by (simp_all add: eval_simps)
  have n: "py_str (JInt 12) = ''12''" "py_str (JInt 7) = ''7''"
    by (simp_all add: str_int_def digits10.simps)
  note g = repositorio_end_to_end [of ?kvs "JInt 7", THEN conjunct1, rule_format, OF h]
  note e = repositorio_end_to_end [of ?kvs "JInt 7", THEN conjunct2, THEN conjunct2, rule_format]
  have 1: \<open>gerar_terraform_repositorio_ado (Loaded (JArr [JObj ?kvs])) =
     Inr (Some ([nl] @ ''resource "azuredevops_git_repository" "api_gateway" {'' @ [nl] @
                ''  project_id = azuredevops_project.platform_team.id'' @ [nl] @
                ''  name       = "API--Gateway"'' @ [nl] @
                repositorio_fixed),
          Some ([nl] @ ''import {'' @ [nl] @
                ''  id = "12/r1"'' @ [nl] @
                ''  to = azuredevops_git_repository.api_gateway'' @ [nl] @
                ''}'' @ [nl]))\<close>
    using g by (simp only: f s n the_str.simps py_str.simps(1) gerar_dict gerar_list) simp
  have 2: \<open>gerar_terraform_repositorio_ado
     (Loaded (JObj [(''id'', JInt 7), (''name'', JStr ''Core Repo''),
        (''project'', JObj [(''id'', JStr ''9''), (''name'', JStr ''Core Proj'')])])) =
     Inr (Some ([nl] @ ''resource "azuredevops_git_repository" "core_repo" {'' @ [nl] @
                ''  project_id = azuredevops_project.core_proj.id'' @ [nl] @
                ''  name       = "Core Repo"'' @ [nl] @
                repositorio_fixed),
          Some ([nl] @ ''import {'' @ [nl] @
                ''  id = "9/7"'' @ [nl] @
                ''  to = azuredevops_git_repository.core_repo'' @ [nl] @
                ''}'' @ [nl]))\<close>
    using e by (simp add: n del: py_str.simps)
  from 1 2 show ?thesis by blast
qed


lemma variable_texts_sub_blocks:
  "list_all (\<lambda>entry. flag_ok (snd entry)) vs \<Longrightarrow>
   map variable_text vs = map variable_sub_block vs"
  by (induction vs) (simp_all add: variable_text_sub_block)

text \<open>
  Claim C8. For a variable group whose required fields are all present (ids truthy,
  names non-empty strings) and whose \<^verbatim>\<open>variables\<close>, if any, map names to objects with a
  boolean \<^verbatim>\<open>isSecret\<close> or none, the \<^verbatim>\<open>variable\<close> block of the resource holds exactly one
  sub-block per entry, in the order of the entries: the name, the value between double
  quotes as \<^verbatim>\<open>str\<close> gives it (a string unchanged, nothing escaped; the empty string
  when there is no value), and \<^verbatim>\<open>is_secret\<close> as \<^verbatim>\<open>true\<close> or \<^verbatim>\<open>false\<close>, \<^verbatim>\<open>false\<close> when the
  flag is missing.
\<close>

theorem variablegroup_variables_rendered:
  \<open>(py_all (variablegroup_required kvs) \<and> is_name (field kvs ''name'') \<and>
    is_name (field (sub kvs ''projectReference'') ''name'') \<and>
    variables_ok kvs \<and> flags_ok kvs \<longrightarrow>
      gerar_terraform_variablegroup_ado (Loaded (JObj kvs)) =
        Inr (Some ([nl] @ ''resource "azuredevops_variable_group" "'' @
                     sanitize (the_str (field kvs ''name'')) ''unnamed_variablegroup'' @
                     ''" {'' @ [nl] @
                   ''  project_id = azuredevops_project.'' @
                     sanitize (the_str (field (sub kvs ''projectReference'') ''name''))
                       ''unnamed_project_ref'' @ ''.id'' @ [nl] @
                   ''  name       = "'' @ the_str (field kvs ''name'') @ ''"'' @ [nl] @
                   [nl] @
                   ''  variable {'' @ [nl] @
                   concat (map variable_sub_block (sub kvs ''variables'')) @
                   ''  }'' @ [nl] @
                   ''}'' @ [nl]),
             Some ([nl] @ ''import {'' @ [nl] @
                   ''  id = "'' @ py_str (field (sub kvs ''projectReference'') ''id'') @ ''/'' @
                     py_str (field kvs ''id'') @ ''"'' @ [nl] @
                   ''  to = azuredevops_variable_group.'' @
                     sanitize (the_str (field kvs ''name'')) ''unnamed_variablegroup'' @ [nl] @
                   ''}'' @ [nl]))) \<and>
   variable_sub_block (var_name, JObj [(''value'', JStr s), (''isSecret'', JBool b)]) =
     ''    '' @ var_name @ '' = {'' @ [nl] @
     ''      value     = "'' @ s @ ''"'' @ [nl] @
     ''      is_secret = '' @ (if b then ''true'' else ''false'') @ [nl] @
     ''    }'' @ [nl] \<and>
   variable_sub_block (var_name, JObj [(''value'', JStr s)]) =
     ''    '' @ var_name @ '' = {'' @ [nl] @
     ''      value     = "'' @ s @ ''"'' @ [nl] @
     ''      is_secret = false'' @ [nl] @
     ''    }'' @ [nl]\<close>
proof (intro conjI impI)
  assume a: "py_all (variablegroup_required kvs) \<and> is_name (field kvs ''name'') \<and>
    is_name (field (sub kvs ''projectReference'') ''name'') \<and>
    variables_ok kvs \<and> flags_ok kvs"
  then have l: "variablegroup_lookups_ok kvs" by (simp add: required_lookups_ok)
  from a have m: "map variable_text (sub kvs ''variables'') =
      map variable_sub_block (sub kvs ''variables'')"
    by (simp add: flags_ok_def variable_texts_sub_blocks)
  from a show \<open>gerar_terraform_variablegroup_ado (Loaded (JObj kvs)) =
        Inr (Some ([nl] @ ''resource "azuredevops_variable_group" "'' @
                     sanitize (the_str (field kvs ''name'')) ''unnamed_variablegroup'' @
                     ''" {'' @ [nl] @
                   ''  project_id = azuredevops_project.'' @
                     sanitize (the_str (field (sub kvs ''projectReference'') ''name''))
                       ''unnamed_project_ref'' @ ''.id'' @ [nl] @
                   ''  name       = "'' @ the_str (field kvs ''name'') @ ''"'' @ [nl] @
                   [nl] @
                   ''  variable {'' @ [nl] @
                   concat (map variable_sub_block (sub kvs ''variables'')) @
                   ''  }'' @ [nl] @
                   ''}'' @ [nl]),
             Some ([nl] @ ''import {'' @ [nl] @
                   ''  id = "'' @ py_str (field (sub kvs ''projectReference'') ''id'') @ ''/'' @
                     py_str (field kvs ''id'') @ ''"'' @ [nl] @
                   ''  to = azuredevops_variable_group.'' @
                     sanitize (the_str (field kvs ''name'')) ''unnamed_variablegroup'' @ [nl] @
                   ''}'' @ [nl]))\<close>
    by (simp add: variablegroup_blocks_ok [OF l] m variablegroup_resource_def
        variablegroup_import_def)
next
  show \<open>variable_sub_block (var_name, JObj [(''value'', JStr s), (''isSecret'', JBool b)]) =
     ''    '' @ var_name @ '' = {'' @ [nl] @
     ''      value     = "'' @ s @ ''"'' @ [nl] @
     ''      is_secret = '' @ (if b then ''true'' else ''false'') @ [nl] @
     ''    }'' @ [nl]\<close>
    by (simp add: variable_sub_block_def raw_value_def secret_flag_def bool_literal_def
        field_or_def)
next
  show \<open>variable_sub_block (var_name, JObj [(''value'', JStr s)]) =
     ''    '' @ var_name @ '' = {'' @ [nl] @
     ''      value     = "'' @ s @ ''"'' @ [nl] @
     ''      is_secret = false'' @ [nl] @
     ''    }'' @ [nl]\<close>
    by (simp add: variable_sub_block_def raw_value_def secret_flag_def bool_literal_def
        field_or_def)
qed

theorem variablegroup_variables_rendered_witness:
  \<open>gerar_terraform_variablegroup_ado
     (Loaded (JObj [(''id'', JInt 7), (''name'', JStr ''My VG''),
        (''projectReference'', JObj [(''id'', JStr ''p1''), (''name'', JStr ''Core Proj'')]),
        (''variables'', JObj
           [(''url'', JObj [(''value'', JStr ''https://x'')]),
            (''token'', JObj [(''value'', JStr ''a"b''), (''isSecret'', JBool True)])])])) =
     Inr (Some ([nl] @ ''resource "azuredevops_variable_group" "my_vg" {'' @ [nl] @
                ''  project_id = azuredevops_project.core_proj.id'' @ [nl] @
                ''  name       = "My VG"'' @ [nl] @
                [nl] @
                ''  variable {'' @ [nl] @
                ''    url = {'' @ [nl] @
                ''      value     = "https://x"'' @ [nl] @
                ''      is_secret = false'' @ [nl] @
                ''    }'' @ [nl] @
                ''    token = {'' @ [nl] @
                ''      value     = "a"b"'' @ [nl] @
                ''      is_secret = true'' @ [nl] @
                ''    }'' @ [nl] @
                ''  }'' @ [nl] @
                ''}'' @ [nl]),
          Some ([nl] @ ''import {'' @ [nl] @
                ''  id = "p1/7"'' @ [nl] @
                ''  to = azuredevops_variable_group.my_vg'' @ [nl] @
                ''}'' @ [nl]))\<close>
proof -
  let ?vars = \<open>[(''url'', JObj [(''value'', JStr ''https://x'')]),
            (''token'', JObj [(''value'', JStr ''a"b''), (''isSecret'', JBool True)])]\<close>
  let ?kvs = "[(''id'', JInt 7), (''name'', JStr ''My VG''),
        (''projectReference'', JObj [(''id'', JStr ''p1''), (''name'', JStr ''Core Proj'')]),
        (''variables'', JObj ?vars)]"
  have h: "py_all (variablegroup_required ?kvs) \<and> is_name (field ?kvs ''name'') \<and>
      is_name (field (sub ?kvs ''projectReference'') ''name'') \<and>
      variables_ok ?kvs \<and> flags_ok ?kvs"
    by (simp add: entity_simps)
  have f: "field ?kvs ''name'' = JStr ''My VG''" "field ?kvs ''id'' = JInt 7"
    "field (sub ?kvs ''projectReference'') ''name'' = JStr ''Core Proj''"
    "field (sub ?kvs ''projectReference'') ''id'' = JStr ''p1''"
    "sub ?kvs ''variables'' = ?vars"
    by (simp_all add: entity_simps)
  have s: "sanitize ''My VG'' ''unnamed_variablegroup'' = ''my_vg''"
    "sanitize ''Core Proj'' ''unnamed_project_ref'' = ''core_proj''"
    by (simp_all add: eval_simps)
  have n: "py_str (JInt 7) = ''7''" by (simp add: str_int_def digits10.simps)
  have v: \<open>concat (map variable_sub_block ?vars) =
      ''    url = {'' @ [nl] @
      ''      value     = "https://x"'' @ [nl] @
      ''      is_secret = false'' @ [nl] @
      ''    }'' @ [nl] @
      ''    token = {'' @ [nl] @
      ''      value     = "a"b"'' @ [nl] @
      ''      is_secret = true'' @ [nl] @
      ''    }'' @ [nl]\<close>
    by (simp add: variable_sub_block_def raw_value_def secret_flag_def bool_literal_def
        field_or_def)
  note g = variablegroup_variables_rendered [of ?kvs, THEN conjunct1, rule_format, OF h]
  show ?thesis
    using g by (simp only: f s n v the_str.simps py_str.simps(1)) simp
qed



end
